theory Spec2Isabelle
  imports Complex_Main "HOL-Library.Word"
begin

section \<open>HcalPhase1Reconstructor: data model\<close>

text \<open>
  A shallow embedding of \<^verbatim>\<open>TensorRT/plugins/HcalPhase1Reconstructor.cc\<close>.

  Conventions of the embedding:
  \<^item> C++ \<^verbatim>\<open>int\<close> is a 32-bit word read in two's complement (\<open>sint\<close>); an addition that
    overflows, undefined in C++, wraps around as the hardware does.
  \<^item> \<^verbatim>\<open>double\<close> and \<^verbatim>\<open>float\<close> values are real numbers: rounding is not modelled.
  \<^item> \<^verbatim>\<open>unsigned int ib\<close>, and \<^verbatim>\<open>ninput\<close> and \<^verbatim>\<open>batchSize\<close> (which \<^verbatim>\<open>TRTClient.h\<close>
    declares, taken to be \<^verbatim>\<open>unsigned\<close>), are 32-bit words read without sign (\<open>unat\<close>):
    the size of the input vector and every index into it are computed modulo \<open>2 ^ 32\<close>,
    and the index operator of the vector takes the result as it is.
  \<^item> An exception, and an unchecked access outside a container (undefined behaviour in
    C++), are values of type \<open>error\<close>; a function that can meet one returns
    \<open>error + 'a\<close> and stops at the first. A phase that ends so returns no state: the
    next \<^verbatim>\<open>acquire\<close> builds a new input vector and clears \<^verbatim>\<open>tmp\<close>.
  \<^item> The calibration service, the coder and the non-linearity table are CMSSW code; they
    are fields of the record \<open>HcalDbService\<close>, and the constant
    \<^verbatim>\<open>HBHEChannelInfo::MAXSAMPLES\<close> is the parameter \<open>MAXSAMPLES\<close>.
  \<^item> The line printed to \<^verbatim>\<open>std::cout\<close> is left out.
\<close>

type_synonym int32 = "32 word"

type_synonym uint32 = "32 word"

datatype HcalSubdetector =
  HcalEmpty | HcalBarrel | HcalEndcap | HcalOuter | HcalForward | HcalTriggerTower | HcalOther

text \<open>\<^verbatim>\<open>HcalDetId\<close>: the channel identity. The source reads \<^verbatim>\<open>subdet()\<close>, \<^verbatim>\<open>ieta()\<close> and
  \<^verbatim>\<open>iphi()\<close>; it never reads the depth of the cell, which is here \<open>cell_depth\<close>.\<close>

record HcalDetId =
  subdet :: HcalSubdetector
  ieta :: int
  iphi :: int
  cell_depth :: int

text \<open>One time slice of a frame: \<^verbatim>\<open>frame[ts].adc()\<close> and \<^verbatim>\<open>frame[ts].capid()\<close>.\<close>

record Sample =
  adc :: "8 word"
  capid :: int

text \<open>A data frame: \<^verbatim>\<open>frame.id()\<close> and the samples read by \<^verbatim>\<open>frame[ts]\<close>.\<close>

record DataFrame =
  frame_id :: HcalDetId
  frame_samples :: "Sample list"

text \<open>The template argument \<^verbatim>\<open>DFrame\<close>: the specialised frame class, or any other one.\<close>

datatype DFrame = QIE11DataFrame | OtherDataFrame

text \<open>\<^verbatim>\<open>HcalDbService\<close>, as far as the source uses it:
  \<^verbatim>\<open>getHcalCalibrations(id).pedestal(capid)\<close>,
  \<^verbatim>\<open>getHcalSiPMParameter(id)->getFCByPE()\<close>,
  the \<^verbatim>\<open>HcalSiPMnonlinearity\<close> built from the non-linearities of the SiPM type of the
  channel with its \<^verbatim>\<open>getRecoCorrectionFactor\<close>, and the charge that the channel's coder
  and shape give to one sample.\<close>

record HcalDbService =
  pedestal :: "HcalDetId \<Rightarrow> int \<Rightarrow> real"
  getFCByPE :: "HcalDetId \<Rightarrow> real"
  getRecoCorrectionFactor :: "HcalDetId \<Rightarrow> real \<Rightarrow> real"
  charge :: "HcalDetId \<Rightarrow> 8 word \<Rightarrow> int \<Rightarrow> real"

text \<open>\<^verbatim>\<open>HBHERecHit(id, energy, time, timeFalling)\<close>.\<close>

record HBHERecHit =
  rechit_id :: HcalDetId
  energy :: real
  time :: real
  timeFalling :: real

definition new_HBHERecHit :: "HcalDetId \<Rightarrow> real \<Rightarrow> real \<Rightarrow> real \<Rightarrow> HBHERecHit" where
  "new_HBHERecHit ident e t tf = \<lparr>rechit_id = ident, energy = e, time = t, timeFalling = tf\<rparr>"

text \<open>What can end a phase early: the exception \<^verbatim>\<open>cms::Exception("HBHEPhase1BadDB")\<close>, a
  sample read outside the samples, and a write outside the input vector.\<close>

datatype error =
  HBHEPhase1BadDB HcalDetId
  | BadSampleIndex int
  | BufferOverrun nat

text \<open>The members of the producer that the three phases use; a member \<^verbatim>\<open>x_\<close> of the
  source is written \<open>member_x\<close>. \<open>client_ninput\<close> and \<open>client_batchSize\<close> are what
  \<^verbatim>\<open>client_.ninput()\<close> and \<^verbatim>\<open>client_.batchSize()\<close> return. \<open>depth\<close> is the member
  \<^verbatim>\<open>float depth\<close>, which no line of the source assigns.\<close>

record HcalPhase1Reconstructor =
  member_sipmQTSShift :: int32
  member_sipmQNTStoSum :: int32
  client_ninput :: uint32
  client_batchSize :: uint32
  tmp :: "HBHERecHit list"
  depth :: real

section \<open>Container accesses\<close>

text \<open>\<^verbatim>\<open>frame[ts]\<close> and \<^verbatim>\<open>cs[ts]\<close>: unchecked in C++; outside the samples of the frame,
  or the decoded charges up to \<^verbatim>\<open>cs.size()\<close>, the model stops with \<open>BadSampleIndex\<close>.\<close>

definition sample_at :: "'a list \<Rightarrow> int \<Rightarrow> error + 'a" where
  "sample_at xs i =
     (if 0 \<le> i \<and> i < int (length xs) then Inr (xs ! nat i) else Inl (BadSampleIndex i))"

text \<open>\<^verbatim>\<open>iInput[k] = v\<close> on the \<^verbatim>\<open>std::vector\<close>: unchecked in C++; outside the vector the
  model stops with \<open>BufferOverrun\<close>.\<close>

definition store :: "real list \<Rightarrow> nat \<Rightarrow> real \<Rightarrow> error + real list" where
  "store iInput k v =
     (if k < length iInput then Inr (iInput[k := v]) else Inl (BufferOverrun k))"

definition std_max :: "int32 \<Rightarrow> int32 \<Rightarrow> int32" where
  "std_max a b = (if sint a < sint b then b else a)"

definition std_min :: "int32 \<Rightarrow> int32 \<Rightarrow> int32" where
  "std_min a b = (if sint b < sint a then b else a)"

text \<open>Modelled from the spec: the charge decoder (\<^verbatim>\<open>HcalCoderDb::adc2fC\<close>, CMSSW code
  outside the repository) produces a per-time-slice sequence of decoded charge values, one
  for each sample of the frame; \<^verbatim>\<open>cs.size()\<close> is its length.\<close>

definition adc2fC :: "HcalDbService \<Rightarrow> DataFrame \<Rightarrow> real list" where
  "adc2fC cond frame =
     map (\<lambda>s. charge cond (frame_id frame) (adc s) (capid s)) (frame_samples frame)"

section \<open>RawChargeFromSample\<close>

text \<open>The corrector object: the primary template has no member; the specialisation
  keeps \<^verbatim>\<open>fcByPE_\<close>, \<^verbatim>\<open>corr_\<close> and \<^verbatim>\<open>factor_\<close>.\<close>

datatype RawChargeFromSample =
  Generic
  | SiPM (member_fcByPE: real) (member_corr: "real \<Rightarrow> real") (member_factor: real)

text \<open>The loop \<^verbatim>\<open>for (int ts = firstTS; ts < lastTS; ++ts)\<close> of the specialised
  constructor, with \<^verbatim>\<open>sipmQ\<close> as accumulator.\<close>

function sipmQ_loop ::
  "(int \<Rightarrow> real) \<Rightarrow> Sample list \<Rightarrow> real list \<Rightarrow> int32 \<Rightarrow> int32 \<Rightarrow> real \<Rightarrow> error + real" where
  "sipmQ_loop calib_pedestal frame cs lastTS ts sipmQ =
     (if sint ts < sint lastTS then
        (case sample_at frame (sint ts) of
           Inl e \<Rightarrow> Inl e
         | Inr s \<Rightarrow>
             (case sample_at cs (sint ts) of
                Inl e \<Rightarrow> Inl e
              | Inr q \<Rightarrow>
                  sipmQ_loop calib_pedestal frame cs lastTS (ts + 1)
                    (sipmQ + (q - calib_pedestal (capid s)))))
      else Inr sipmQ)"
  by pat_completeness auto
termination
proof (relation "measure (\<lambda>(p, f, c, lastTS, ts, q). nat (sint lastTS - sint ts))")
  show "wf (measure (\<lambda>(p, f, c, lastTS, ts, q). nat (sint lastTS - sint ts)))"
    by simp
next
  fix calib_pedestal :: "int \<Rightarrow> real" and frame :: "Sample list" and cs :: "real list"
    and lastTS ts :: int32 and sipmQ :: real and x2 :: Sample and x2a :: real
  assume lt: "sint ts < sint lastTS"
  have "sint lastTS < 2 ^ 31"
    using sint_lt [of lastTS] by simp
  moreover have "- (2 ^ 31) \<le> sint ts"
    using sint_ge [of ts] by simp
  ultimately have "sint (ts + 1) = sint ts + 1"
    using lt by (simp add: sint_word_ariths signed_take_bit_int_eq_self)
  then show "((calib_pedestal, frame, cs, lastTS, ts + 1, sipmQ + (x2a - calib_pedestal (capid x2))),
              (calib_pedestal, frame, cs, lastTS, ts, sipmQ))
             \<in> measure (\<lambda>(p, f, c, lastTS, ts, q). nat (sint lastTS - sint ts))"
    using lt by simp
qed

declare sipmQ_loop.simps [simp del]

text \<open>The constructors. The primary template's has an empty body. The specialisation's
  throws \<^verbatim>\<open>cms::Exception("HBHEPhase1BadDB")\<close> on a non-positive \<^verbatim>\<open>fcByPE_\<close>, then sums
  the window and looks the factor up once.\<close>

definition RawChargeFromSample_QIE11 ::
  "int32 \<Rightarrow> int32 \<Rightarrow> HcalDbService \<Rightarrow> HcalDetId \<Rightarrow> real list \<Rightarrow> int32 \<Rightarrow> DataFrame \<Rightarrow> int32
     \<Rightarrow> error + RawChargeFromSample" where
  "RawChargeFromSample_QIE11 sipmQTSShift sipmQNTStoSum cond ident cs soi frame maxTS =
     (let fcByPE = getFCByPE cond ident;
          corr = getRecoCorrectionFactor cond ident
      in if fcByPE \<le> 0 then Inl (HBHEPhase1BadDB ident)
         else
           let firstTS = std_max (soi + sipmQTSShift) 0;
               lastTS = std_min (firstTS + sipmQNTStoSum) maxTS
           in case sipmQ_loop (pedestal cond ident) (frame_samples frame) cs lastTS firstTS 0 of
                Inl e \<Rightarrow> Inl e
              | Inr sipmQ \<Rightarrow>
                  let effectivePixelsFired = sipmQ / fcByPE
                  in Inr (SiPM fcByPE corr (corr effectivePixelsFired)))"

fun RawChargeFromSample_ctor ::
  "DFrame \<Rightarrow> int32 \<Rightarrow> int32 \<Rightarrow> HcalDbService \<Rightarrow> HcalDetId \<Rightarrow> real list \<Rightarrow> int32 \<Rightarrow> DataFrame
     \<Rightarrow> int32 \<Rightarrow> error + RawChargeFromSample" where
  "RawChargeFromSample_ctor QIE11DataFrame sipmQTSShift sipmQNTStoSum cond ident cs soi frame maxTS =
     RawChargeFromSample_QIE11 sipmQTSShift sipmQNTStoSum cond ident cs soi frame maxTS"
| "RawChargeFromSample_ctor OtherDataFrame sipmQTSShift sipmQNTStoSum cond ident cs soi frame maxTS =
     Inr Generic"

fun getRawCharge :: "RawChargeFromSample \<Rightarrow> real \<Rightarrow> real \<Rightarrow> real" where
  "getRawCharge Generic decodedCharge ped = decodedCharge"
| "getRawCharge (SiPM fcByPE corr factor) decodedCharge ped =
     (decodedCharge - ped) * factor + ped"

section \<open>processData\<close>

text \<open>The channel filter of \<^verbatim>\<open>processData\<close>: the test before \<^verbatim>\<open>continue\<close>, negated.\<close>

definition admitted :: "HcalDetId \<Rightarrow> bool" where
  "admitted cell \<longleftrightarrow>
     subdet cell = HcalBarrel \<or> subdet cell = HcalEndcap \<or> subdet cell = HcalOuter"

text \<open>The loop over \<^verbatim>\<open>inputTS\<close>: the list argument is the \<^verbatim>\<open>inputTS\<close> still to run. The
  index \<^verbatim>\<open>ib*ninput+inputTS+2\<close> is computed in \<^verbatim>\<open>unsigned int\<close>, to which \<^verbatim>\<open>inputTS\<close>, never
  negative, is converted.\<close>

fun write_charges ::
  "RawChargeFromSample \<Rightarrow> (int \<Rightarrow> real) \<Rightarrow> Sample list \<Rightarrow> real list \<Rightarrow> uint32 \<Rightarrow> uint32
     \<Rightarrow> nat list \<Rightarrow> real list \<Rightarrow> error + real list" where
  "write_charges rcfs calib_pedestal frame cs ib ninput [] iInput = Inr iInput"
| "write_charges rcfs calib_pedestal frame cs ib ninput (inputTS # rest) iInput =
     (case sample_at frame (int inputTS) of
        Inl e \<Rightarrow> Inl e
      | Inr s \<Rightarrow>
          (case sample_at cs (int inputTS) of
             Inl e \<Rightarrow> Inl e
           | Inr q \<Rightarrow>
               (let rawCharge = getRawCharge rcfs q (calib_pedestal (capid s))
                in case store iInput (unat (ib * ninput + of_nat inputTS + 2)) rawCharge of
                     Inl e \<Rightarrow> Inl e
                   | Inr iInput' \<Rightarrow>
                       write_charges rcfs calib_pedestal frame cs ib ninput rest iInput')))"

text \<open>The loop over \<^verbatim>\<open>d\<close>, which compares the member \<^verbatim>\<open>depth\<close> with \<^verbatim>\<open>(float)d\<close>.\<close>

fun write_depth :: "real \<Rightarrow> uint32 \<Rightarrow> uint32 \<Rightarrow> nat list \<Rightarrow> real list \<Rightarrow> error + real list" where
  "write_depth member_depth ib ninput [] iInput = Inr iInput"
| "write_depth member_depth ib ninput (d # rest) iInput =
     (case store iInput (unat (ib * ninput + of_nat d + 10))
             (if member_depth = real d then 1 else 0) of
        Inl e \<Rightarrow> Inl e
      | Inr iInput' \<Rightarrow> write_depth member_depth ib ninput rest iInput')"

text \<open>The body of the loop over the collection, for the frame at the position
  \<open>distance\<close> of the collection. In the source the body opens with
  \<^verbatim>\<open>unsigned int ib = std::distance(coll.begin(),it)\<close>, a new variable that hides the
  counter \<^verbatim>\<open>ib\<close> declared before the loop; the \<^verbatim>\<open>ib++\<close> that closes the body increments
  this inner variable, which ends with the iteration.\<close>

definition process_digi ::
  "DFrame \<Rightarrow> int32 \<Rightarrow> HcalDbService \<Rightarrow> uint32 \<Rightarrow> nat \<Rightarrow> DataFrame
     \<Rightarrow> HcalPhase1Reconstructor \<times> real list \<Rightarrow> error + (HcalPhase1Reconstructor \<times> real list)" where
  "process_digi dframe MAXSAMPLES cond ninput distance frame st =
     (let this = fst st; iInput = snd st; ib = of_nat distance; cell = frame_id frame
      in if \<not> admitted cell then Inr st
         else
           let cs = adc2fC cond frame;
               nRead = of_nat (length cs);
               maxTS = std_min nRead MAXSAMPLES;
               soi = 3;
               nCycles = 8
           in case RawChargeFromSample_ctor dframe (member_sipmQTSShift this)
                     (member_sipmQNTStoSum this) cond cell cs soi frame maxTS of
                Inl e \<Rightarrow> Inl e
              | Inr rcfs \<Rightarrow>
                  (case write_charges rcfs (pedestal cond cell) (frame_samples frame) cs
                          ib ninput [0..<nCycles] iInput of
                     Inl e \<Rightarrow> Inl e
                   | Inr iInput1 \<Rightarrow>
                       (case store iInput1 (unat (ib + 0)) (of_int (ieta cell)) of
                          Inl e \<Rightarrow> Inl e
                        | Inr iInput2 \<Rightarrow>
                            (case store iInput2 (unat (ib + 1)) (of_int (iphi cell)) of
                               Inl e \<Rightarrow> Inl e
                             | Inr iInput3 \<Rightarrow>
                                 (case write_depth (depth this) ib ninput [1..<5] iInput3 of
                                    Inl e \<Rightarrow> Inl e
                                  | Inr iInput4 \<Rightarrow>
                                      Inr (this\<lparr>tmp := tmp this @ [new_HBHERecHit cell 0 0 0]\<rparr>,
                                           iInput4))))))"

text \<open>The loop over the collection; \<open>distance\<close> is the distance of the iterator from
  \<^verbatim>\<open>coll.begin()\<close>.\<close>

fun processData_loop ::
  "DFrame \<Rightarrow> int32 \<Rightarrow> HcalDbService \<Rightarrow> uint32 \<Rightarrow> nat \<Rightarrow> DataFrame list
     \<Rightarrow> HcalPhase1Reconstructor \<times> real list \<Rightarrow> error + (HcalPhase1Reconstructor \<times> real list)" where
  "processData_loop dframe MAXSAMPLES cond ninput distance [] st = Inr st"
| "processData_loop dframe MAXSAMPLES cond ninput distance (frame # rest) st =
     (case process_digi dframe MAXSAMPLES cond ninput distance frame st of
        Inl e \<Rightarrow> Inl e
      | Inr st' \<Rightarrow> processData_loop dframe MAXSAMPLES cond ninput (Suc distance) rest st')"

definition processData ::
  "DFrame \<Rightarrow> int32 \<Rightarrow> HcalPhase1Reconstructor \<Rightarrow> DataFrame list \<Rightarrow> HcalDbService \<Rightarrow> real list
     \<Rightarrow> uint32 \<Rightarrow> error + (HcalPhase1Reconstructor \<times> real list)" where
  "processData dframe MAXSAMPLES this coll cond iInput ninput =
     processData_loop dframe MAXSAMPLES cond ninput 0 coll (this, iInput)"

section \<open>acquire and produce\<close>

definition acquire ::
  "int32 \<Rightarrow> HcalPhase1Reconstructor \<Rightarrow> DataFrame list \<Rightarrow> HcalDbService
     \<Rightarrow> error + (HcalPhase1Reconstructor \<times> real list)" where
  "acquire MAXSAMPLES this digis conditions =
     (let ninput = client_ninput this;
          batchSize = client_batchSize this;
          iInput = replicate (unat (ninput * batchSize)) 0;
          this1 = this\<lparr>tmp := []\<rparr>
      in processData QIE11DataFrame MAXSAMPLES this1 digis conditions iInput ninput)"

text \<open>The loop of \<^verbatim>\<open>produce\<close> over \<^verbatim>\<open>tmp\<close>, with its counter \<^verbatim>\<open>ib\<close> and the collection
  \<^verbatim>\<open>out\<close>.\<close>

fun produce_loop ::
  "real list \<Rightarrow> nat \<Rightarrow> HBHERecHit list \<Rightarrow> HBHERecHit list \<Rightarrow> HBHERecHit list" where
  "produce_loop iOutput ib [] out = out"
| "produce_loop iOutput ib (it # rest) out =
     produce_loop iOutput (Suc ib) rest
       (out @ [new_HBHERecHit (rechit_id it) (1 / 2) 0 0])"

definition produce :: "HcalPhase1Reconstructor \<Rightarrow> real list \<Rightarrow> HBHERecHit list" where
  "produce this iOutput = produce_loop iOutput 0 (tmp this) []"

text \<open>Modelled from the spec: the driver of a cycle (\<^verbatim>\<open>SonicEDProducer\<close>, of
  \<^verbatim>\<open>SonicCMS/Core\<close>, is not among the sources). One cycle is one acquisition of input
  data, one inference round-trip and one emission of results; an error of the acquisition
  propagates up and aborts the cycle, with no record emitted.\<close>

definition cycle ::
  "(real list \<Rightarrow> real list) \<Rightarrow> int32 \<Rightarrow> HcalPhase1Reconstructor \<Rightarrow> DataFrame list \<Rightarrow> HcalDbService
     \<Rightarrow> error + (HcalPhase1Reconstructor \<times> HBHERecHit list)" where
  "cycle gateway MAXSAMPLES this digis conditions =
     (case acquire MAXSAMPLES this digis conditions of
        Inl e \<Rightarrow> Inl e
      | Inr r \<Rightarrow> Inr (fst r, produce (fst r) (gateway (snd r))))"

section \<open>Concrete inputs\<close>

text \<open>Conditions, channels, frames and a producer on which the functions are evaluated.
  The fC/PE factor of the example conditions is 0 for a channel of negative eta; the
  member \<^verbatim>\<open>depth\<close> of the example producer holds 1.\<close>

definition example_conditions :: HcalDbService where
  "example_conditions =
     \<lparr>pedestal = (\<lambda>cell c. 1),
      getFCByPE = (\<lambda>cell. if ieta cell < 0 then 0 else 2),
      getRecoCorrectionFactor = (\<lambda>cell x. 1 + x),
      charge = (\<lambda>cell a c. real (unat a))\<rparr>"

definition example_samples :: "Sample list" where
  "example_samples = map (\<lambda>a. \<lparr>adc = a, capid = 0\<rparr>) [1, 2, 3, 4, 5, 6, 7, 8]"

definition barrel_a :: HcalDetId where
  "barrel_a = \<lparr>subdet = HcalBarrel, ieta = 5, iphi = 7, cell_depth = 2\<rparr>"

definition endcap_b :: HcalDetId where
  "endcap_b = \<lparr>subdet = HcalEndcap, ieta = 20, iphi = 33, cell_depth = 3\<rparr>"

definition forward_c :: HcalDetId where
  "forward_c = \<lparr>subdet = HcalForward, ieta = 30, iphi = 1, cell_depth = 1\<rparr>"

definition barrel_bad :: HcalDetId where
  "barrel_bad = \<lparr>subdet = HcalBarrel, ieta = -4, iphi = 9, cell_depth = 1\<rparr>"

definition frame_of :: "HcalDetId \<Rightarrow> DataFrame" where
  "frame_of cell = \<lparr>frame_id = cell, frame_samples = example_samples\<rparr>"

definition example_producer :: "uint32 \<Rightarrow> uint32 \<Rightarrow> HcalPhase1Reconstructor" where
  "example_producer ninput batchSize =
     \<lparr>member_sipmQTSShift = 0, member_sipmQNTStoSum = 3, client_ninput = ninput,
      client_batchSize = batchSize, tmp = [], depth = 1\<rparr>"

section \<open>Machine integers and container accesses\<close>

lemma sint_succ: "sint (ts :: int32) < sint (b :: int32) \<Longrightarrow> sint (ts + 1) = sint ts + 1"
proof -
  assume lt: "sint ts < sint b"
  have "sint b < 2 ^ 31"
    using sint_lt [of b] by simp
  moreover have "- (2 ^ 31) \<le> sint ts"
    using sint_ge [of ts] by simp
  ultimately show ?thesis
    using lt by (simp add: sint_word_ariths signed_take_bit_int_eq_self)
qed

lemma sint_of_nat_le: "sint (of_nat n :: int32) \<le> int n"
proof -
  have "- (2 ^ 31) \<le> uint (of_nat n :: int32)"
    by (rule order_trans [of _ 0]) simp_all
  then have "sint (of_nat n :: int32) \<le> uint (of_nat n :: int32)"
    by (simp add: sint_uint signed_take_bit_int_less_eq_self_iff)
  also have "\<dots> \<le> int n"
    by (simp add: uint_nat unat_of_nat)
  finally show ?thesis .
qed

lemma sint_std_min_le1: "sint (std_min a b) \<le> sint a"
  by (simp add: std_min_def)

lemma sint_std_min_le2: "sint (std_min a b) \<le> sint b"
  by (simp add: std_min_def)

lemma sint_std_max_0: "0 \<le> sint (std_max a 0)"
  by (simp add: std_max_def)

lemma sample_at_Inr: "0 \<le> i \<Longrightarrow> i < int (length xs) \<Longrightarrow> sample_at xs i = Inr (xs ! nat i)"
  by (simp add: sample_at_def)

lemma sample_at_InrD: "sample_at xs i = Inr x \<Longrightarrow> 0 \<le> i \<and> i < int (length xs) \<and> x = xs ! nat i"
  by (auto simp: sample_at_def split: if_splits)

lemma sipmQ_loop_sum:
  "0 \<le> sint ts \<Longrightarrow> sint lastTS \<le> int (length frame) \<Longrightarrow> sint lastTS \<le> int (length cs) \<Longrightarrow>
   sipmQ_loop ped frame cs lastTS ts acc =
     Inr (acc + (\<Sum>i = nat (sint ts)..<nat (sint lastTS). cs ! i - ped (capid (frame ! i))))"
proof (induction ped frame cs lastTS ts acc rule: sipmQ_loop.induct)
  case (1 ped frame cs lastTS ts acc)
  show ?case
  proof (cases "sint ts < sint lastTS")
    case True
    have succ: "sint (ts + 1) = sint ts + 1"
      using True by (rule sint_succ)
    have f: "sample_at frame (sint ts) = Inr (frame ! nat (sint ts))"
      using True "1.prems" by (simp add: sample_at_Inr)
    have c: "sample_at cs (sint ts) = Inr (cs ! nat (sint ts))"
      using True "1.prems" by (simp add: sample_at_Inr)
    have ih: "sipmQ_loop ped frame cs lastTS (ts + 1)
                (acc + (cs ! nat (sint ts) - ped (capid (frame ! nat (sint ts))))) =
              Inr (acc + (cs ! nat (sint ts) - ped (capid (frame ! nat (sint ts)))) +
                (\<Sum>i = nat (sint (ts + 1))..<nat (sint lastTS). cs ! i - ped (capid (frame ! i))))"
      using "1.IH" [OF True f c] "1.prems" succ by simp
    have nat_succ: "nat (sint (ts + 1)) = Suc (nat (sint ts))"
      using succ "1.prems"(1) by simp
    have lt: "nat (sint ts) < nat (sint lastTS)"
      using True "1.prems"(1) by simp
    show ?thesis
      by (subst sipmQ_loop.simps) (simp add: True f c ih nat_succ sum.atLeast_Suc_lessThan [OF lt])
  next
    case False
    then show ?thesis
      by (subst sipmQ_loop.simps) simp
  qed
qed



lemma sipmQ_loop_Inr:
  "sipmQ_loop ped frame cs lastTS ts acc = Inr q \<Longrightarrow> 0 \<le> sint ts \<Longrightarrow>
   q = acc + (\<Sum>i = nat (sint ts)..<nat (sint lastTS). cs ! i - ped (capid (frame ! i)))"
proof (induction ped frame cs lastTS ts acc rule: sipmQ_loop.induct)
  case (1 ped frame cs lastTS ts acc)
  show ?case
  proof (cases "sint ts < sint lastTS")
    case True
    have succ: "sint (ts + 1) = sint ts + 1"
      using True by (rule sint_succ)
    from "1.prems"(1) True obtain s c where
      f: "sample_at frame (sint ts) = Inr s" and c: "sample_at cs (sint ts) = Inr c"
      and rec: "sipmQ_loop ped frame cs lastTS (ts + 1) (acc + (c - ped (capid s))) = Inr q"
      by (subst (asm) sipmQ_loop.simps) (auto split: sum.splits)
    have s: "s = frame ! nat (sint ts)" and c': "c = cs ! nat (sint ts)"
      using f c by (auto dest: sample_at_InrD)
    have "q = acc + (c - ped (capid s)) +
            (\<Sum>i = nat (sint (ts + 1))..<nat (sint lastTS). cs ! i - ped (capid (frame ! i)))"
      using "1.IH" [OF True f c rec] "1.prems"(2) succ by simp
    moreover have "nat (sint (ts + 1)) = Suc (nat (sint ts))"
      using succ "1.prems"(2) by simp
    moreover have "nat (sint ts) < nat (sint lastTS)"
      using True "1.prems"(2) by simp
    ultimately show ?thesis
      by (simp add: s c' sum.atLeast_Suc_lessThan)
  next
    case False
    then show ?thesis
      using "1.prems" by (subst (asm) sipmQ_loop.simps) simp
  qed
qed

lemma sipmQ_loop_take:
  "0 \<le> sint ts \<Longrightarrow> sint lastTS \<le> int m \<Longrightarrow>
   sipmQ_loop ped (take m frame) (take m cs) lastTS ts acc = sipmQ_loop ped frame cs lastTS ts acc"
proof (induction ped frame cs lastTS ts acc rule: sipmQ_loop.induct)
  case (1 ped frame cs lastTS ts acc)
  show ?case
  proof (cases "sint ts < sint lastTS")
    case True
    have succ: "sint (ts + 1) = sint ts + 1"
      using True by (rule sint_succ)
    have f: "sample_at (take m frame) (sint ts) = sample_at frame (sint ts)"
      using True "1.prems" by (auto simp: sample_at_def)
    have c: "sample_at (take m cs) (sint ts) = sample_at cs (sint ts)"
      using True "1.prems" by (auto simp: sample_at_def)
    show ?thesis
    proof (cases "sample_at frame (sint ts)")
      case (Inl e)
      then show ?thesis
        by (subst sipmQ_loop.simps, subst (2) sipmQ_loop.simps) (simp add: True f)
    next
      case (Inr s)
      note fr = this
      show ?thesis
      proof (cases "sample_at cs (sint ts)")
        case (Inl e)
        then show ?thesis
          by (subst sipmQ_loop.simps, subst (2) sipmQ_loop.simps) (simp add: True f c fr)
      next
        case (Inr q)
        have "sipmQ_loop ped (take m frame) (take m cs) lastTS (ts + 1) (acc + (q - ped (capid s))) =
              sipmQ_loop ped frame cs lastTS (ts + 1) (acc + (q - ped (capid s)))"
          using "1.IH" [OF True fr Inr] "1.prems" succ by simp
        then show ?thesis
          by (subst sipmQ_loop.simps, subst (2) sipmQ_loop.simps) (simp add: True f c fr Inr)
      qed
    qed
  next
    case False
    then show ?thesis
      by (subst sipmQ_loop.simps, subst (2) sipmQ_loop.simps) simp
  qed
qed

section \<open>The constructor and the loops of a channel\<close>

lemma store_Inr: "k < length iInput \<Longrightarrow> store iInput k v = Inr (iInput[k := v])"
  by (simp add: store_def)

lemma store_InrD: "store iInput k v = Inr iInput' \<Longrightarrow> k < length iInput \<and> iInput' = iInput[k := v]"
  by (auto simp: store_def split: if_splits)

lemma ctor_QIE11_bad:
  "getFCByPE cond ident \<le> 0 \<Longrightarrow>
   RawChargeFromSample_QIE11 shift n cond ident cs soi frame maxTS = Inl (HBHEPhase1BadDB ident)"
  by (simp add: RawChargeFromSample_QIE11_def Let_def)

lemma ctor_QIE11_ok:
  assumes "0 < getFCByPE cond ident"
    and "sint maxTS \<le> int (length (frame_samples frame))"
    and "sint maxTS \<le> int (length cs)"
  shows "RawChargeFromSample_QIE11 shift n cond ident cs soi frame maxTS =
     Inr (SiPM (getFCByPE cond ident) (getRecoCorrectionFactor cond ident)
       (getRecoCorrectionFactor cond ident
         ((\<Sum>i = nat (sint (std_max (soi + shift) 0))..<
                nat (sint (std_min (std_max (soi + shift) 0 + n) maxTS)).
              cs ! i - pedestal cond ident (capid (frame_samples frame ! i)))
          / getFCByPE cond ident)))"
proof -
  let ?first = "std_max (soi + shift) 0"
  let ?last = "std_min (?first + n) maxTS"
  have "sint ?last \<le> sint maxTS"
    by (rule sint_std_min_le2)
  then have "sipmQ_loop (pedestal cond ident) (frame_samples frame) cs ?last ?first 0 =
     Inr (0 + (\<Sum>i = nat (sint ?first)..<nat (sint ?last).
                 cs ! i - pedestal cond ident (capid (frame_samples frame ! i))))"
    using assms(2,3) by (intro sipmQ_loop_sum sint_std_max_0) simp_all
  then show ?thesis
    using assms(1) by (simp add: RawChargeFromSample_QIE11_def Let_def)
qed

lemma ctor_QIE11_InrD:
  assumes "RawChargeFromSample_QIE11 shift n cond ident cs soi frame maxTS = Inr rcfs"
  shows "0 < getFCByPE cond ident \<and>
     rcfs = SiPM (getFCByPE cond ident) (getRecoCorrectionFactor cond ident)
       (getRecoCorrectionFactor cond ident
         ((\<Sum>i = nat (sint (std_max (soi + shift) 0))..<
                nat (sint (std_min (std_max (soi + shift) 0 + n) maxTS)).
              cs ! i - pedestal cond ident (capid (frame_samples frame ! i)))
          / getFCByPE cond ident))"
proof -
  let ?first = "std_max (soi + shift) 0"
  let ?last = "std_min (?first + n) maxTS"
  have pos: "0 < getFCByPE cond ident"
    using assms by (auto simp: RawChargeFromSample_QIE11_def Let_def split: if_splits)
  then obtain q where
    q: "sipmQ_loop (pedestal cond ident) (frame_samples frame) cs ?last ?first 0 = Inr q"
    and r: "rcfs = SiPM (getFCByPE cond ident) (getRecoCorrectionFactor cond ident)
       (getRecoCorrectionFactor cond ident (q / getFCByPE cond ident))"
    using assms by (auto simp: RawChargeFromSample_QIE11_def Let_def split: if_splits sum.splits)
  have "q = 0 + (\<Sum>i = nat (sint ?first)..<nat (sint ?last).
                 cs ! i - pedestal cond ident (capid (frame_samples frame ! i)))"
    using q by (rule sipmQ_loop_Inr) (rule sint_std_max_0)
  then show ?thesis
    using pos r by simp
qed

lemma unat_of_nat_small: "n < 2 ^ 32 \<Longrightarrow> unat (of_nat n :: uint32) = n"
  by (simp add: unat_of_nat)

lemma index_inj:
  assumes "t < 2 ^ 32" and "ts < 2 ^ 32"
    and "unat (x + of_nat t + c :: uint32) = unat (x + of_nat ts + c)"
  shows "t = ts"
proof -
  have "x + of_nat t + c = x + of_nat ts + c"
    using assms(3) by (simp add: word_unat_eq_iff)
  then have "(of_nat t :: uint32) = of_nat ts"
    by simp
  then have "unat (of_nat t :: uint32) = unat (of_nat ts :: uint32)"
    by simp
  then show ?thesis
    using assms(1,2) by (simp add: unat_of_nat_small)
qed

lemma row_index:
  assumes d: "distance < unat (batchSize :: uint32)"
    and w: "15 \<le> unat (ninput :: uint32)"
    and nowrap: "unat ninput * unat batchSize < 2 ^ 32"
    and k: "k < 15"
  shows "unat (of_nat distance * ninput + of_nat k) = distance * unat ninput + k"
    and "distance * unat ninput + k < unat ninput * unat batchSize"
proof -
  have "Suc distance \<le> unat batchSize"
    using d by simp
  then have "unat ninput * Suc distance \<le> unat ninput * unat batchSize"
    by (rule mult_le_mono2)
  then show bound: "distance * unat ninput + k < unat ninput * unat batchSize"
    using w k by (simp add: mult.commute)
  have "unat batchSize < 2 ^ 32"
    using unsigned_less [of batchSize, where 'a = nat] by simp
  then have ud: "unat (of_nat distance :: uint32) = distance"
    using d by (intro unat_of_nat_small) simp
  have uk: "unat (of_nat k :: uint32) = k"
    using k by (intro unat_of_nat_small) simp
  have "unat (of_nat distance :: uint32) * unat ninput < 2 ^ LENGTH(32)"
    using bound nowrap ud by simp
  then have um: "unat (of_nat distance * ninput) = distance * unat ninput"
    using ud by (simp add: unat_mult_lem [THEN iffD1])
  have "unat (of_nat distance * ninput) + unat (of_nat k :: uint32) < 2 ^ LENGTH(32)"
    using bound nowrap um uk by simp
  then show "unat (of_nat distance * ninput + of_nat k) = distance * unat ninput + k"
    using um uk by (simp add: unat_add_lem [THEN iffD1])
qed

lemma meta_index:
  assumes d: "distance < unat (batchSize :: uint32)"
    and w: "15 \<le> unat (ninput :: uint32)"
    and nowrap: "unat ninput * unat batchSize < 2 ^ 32"
  shows "unat (of_nat distance + 0 :: uint32) = distance"
    and "unat (of_nat distance + 1 :: uint32) = distance + 1"
    and "distance + 1 < unat ninput * unat batchSize"
proof -
  have "15 * unat batchSize \<le> unat ninput * unat batchSize"
    using w by (rule mult_le_mono1)
  then show bound: "distance + 1 < unat ninput * unat batchSize"
    using d by linarith
  have "unat batchSize < 2 ^ 32"
    using unsigned_less [of batchSize, where 'a = nat] by simp
  then have ud: "unat (of_nat distance :: uint32) = distance"
    using d by (intro unat_of_nat_small) simp
  then show "unat (of_nat distance + 0 :: uint32) = distance"
    by simp
  have "unat (of_nat distance :: uint32) + unat (1 :: uint32) < 2 ^ LENGTH(32)"
    using bound nowrap ud by simp
  then show "unat (of_nat distance + 1 :: uint32) = distance + 1"
    using ud by (simp add: unat_add_lem [THEN iffD1])
qed

lemma write_charges_ok:
  "(\<And>ts. ts \<in> set tss \<Longrightarrow>
      ts < length frame \<and> ts < length cs \<and>
      unat (ib * ninput + of_nat ts + 2) < length iInput) \<Longrightarrow>
   \<exists>iInput'. write_charges rcfs ped frame cs ib ninput tss iInput = Inr iInput'"
proof (induction tss arbitrary: iInput)
  case Nil
  then show ?case by simp
next
  case (Cons ts tss)
  have a: "ts < length frame" "ts < length cs" "unat (ib * ninput + of_nat ts + 2) < length iInput"
    using Cons.prems [of ts] by simp_all
  let ?next = "iInput[unat (ib * ninput + of_nat ts + 2) :=
                 getRawCharge rcfs (cs ! ts) (ped (capid (frame ! ts)))]"
  have "\<exists>iInput'. write_charges rcfs ped frame cs ib ninput tss ?next = Inr iInput'"
    using Cons.prems by (intro Cons.IH) simp
  then show ?case
    using a by (simp add: sample_at_Inr store_Inr)
qed

lemma write_charges_Inr:
  "write_charges rcfs ped frame cs ib ninput tss iInput = Inr iInput' \<Longrightarrow>
   length iInput' = length iInput \<and>
   (\<forall>k. k \<notin> (\<lambda>ts. unat (ib * ninput + of_nat ts + 2)) ` set tss \<longrightarrow> iInput' ! k = iInput ! k) \<and>
   (distinct tss \<and> (\<forall>t \<in> set tss. t < 2 ^ 32) \<longrightarrow> (\<forall>ts \<in> set tss.
      iInput' ! unat (ib * ninput + of_nat ts + 2) =
        getRawCharge rcfs (cs ! ts) (ped (capid (frame ! ts)))))"
proof (induction tss arbitrary: iInput)
  case Nil
  then show ?case by simp
next
  case (Cons ts tss)
  let ?ix = "\<lambda>t. unat (ib * ninput + of_nat t + 2)"
  from Cons.prems obtain s q mid where
    s: "sample_at frame (int ts) = Inr s" and q: "sample_at cs (int ts) = Inr q"
    and st: "store iInput (?ix ts) (getRawCharge rcfs q (ped (capid s))) = Inr mid"
    and rest: "write_charges rcfs ped frame cs ib ninput tss mid = Inr iInput'"
    by (auto simp: Let_def split: sum.splits)
  have s': "s = frame ! ts" and q': "q = cs ! ts"
    using s q by (auto dest: sample_at_InrD)
  have mid: "?ix ts < length iInput"
    "mid = iInput[?ix ts := getRawCharge rcfs q (ped (capid s))]"
    using st by (auto dest: store_InrD)
  note ih = Cons.IH [OF rest]
  have len: "length iInput' = length iInput"
    using ih mid by simp
  have other: "\<forall>k. k \<notin> ?ix ` set (ts # tss) \<longrightarrow> iInput' ! k = iInput ! k"
    using ih mid by auto
  have own: "distinct (ts # tss) \<and> (\<forall>t \<in> set (ts # tss). t < 2 ^ 32) \<longrightarrow>
      (\<forall>t \<in> set (ts # tss). iInput' ! ?ix t = getRawCharge rcfs (cs ! t) (ped (capid (frame ! t))))"
  proof (intro impI ballI)
    fix t
    assume a: "distinct (ts # tss) \<and> (\<forall>t \<in> set (ts # tss). t < 2 ^ 32)"
      and t: "t \<in> set (ts # tss)"
    show "iInput' ! ?ix t = getRawCharge rcfs (cs ! t) (ped (capid (frame ! t)))"
    proof (cases "t = ts")
      case True
      have "?ix ts \<notin> ?ix ` set tss"
      proof
        assume "?ix ts \<in> ?ix ` set tss"
        then obtain u where u: "u \<in> set tss" "?ix ts = ?ix u"
          by blast
        then have "ts = u"
          using a by (intro index_inj [of ts u "ib * ninput" 2]) simp_all
        then show False
          using a u by simp
      qed
      then have "iInput' ! ?ix ts = mid ! ?ix ts"
        using ih by blast
      then show ?thesis
        using True mid s' q' by simp
    next
      case False
      then show ?thesis
        using ih a t by auto
    qed
  qed
  show ?case
    using len other own by blast
qed

lemma write_depth_ok:
  "(\<And>d. d \<in> set ds \<Longrightarrow> unat (ib * ninput + of_nat d + 10) < length iInput) \<Longrightarrow>
   \<exists>iInput'. write_depth member_depth ib ninput ds iInput = Inr iInput'"
proof (induction ds arbitrary: iInput)
  case Nil
  then show ?case by simp
next
  case (Cons d ds)
  have a: "unat (ib * ninput + of_nat d + 10) < length iInput"
    using Cons.prems [of d] by simp
  let ?next = "iInput[unat (ib * ninput + of_nat d + 10) :=
                 (if member_depth = real d then 1 else 0)]"
  have "\<exists>iInput'. write_depth member_depth ib ninput ds ?next = Inr iInput'"
    using Cons.prems by (intro Cons.IH) simp
  then show ?case
    using a by (simp add: store_Inr)
qed

lemma write_depth_length:
  "write_depth member_depth ib ninput ds iInput = Inr iInput' \<Longrightarrow> length iInput' = length iInput"
proof (induction ds arbitrary: iInput)
  case Nil
  then show ?case by simp
next
  case (Cons d ds)
  then show ?case
    by (auto split: sum.splits dest!: store_InrD)
qed

section \<open>The loop over the collection\<close>

lemma process_digi_rejected:
  "\<not> admitted (frame_id frame) \<Longrightarrow> process_digi dframe M cond ninput distance frame st = Inr st"
  by (simp add: process_digi_def Let_def)

lemma process_digi_bad:
  "admitted (frame_id frame) \<Longrightarrow> getFCByPE cond (frame_id frame) \<le> 0 \<Longrightarrow>
   process_digi QIE11DataFrame M cond ninput distance frame st = Inl (HBHEPhase1BadDB (frame_id frame))"
  by (simp add: process_digi_def Let_def ctor_QIE11_bad)

lemma maxTS_le_length:
  "sint (std_min (of_nat (length (xs :: 'a list))) M) \<le> int (length xs)"
  using sint_std_min_le1 [of "of_nat (length xs)" M] sint_of_nat_le [of "length xs"]
  by (rule order_trans)

lemma process_digi_ok:
  assumes wf: "admitted (frame_id frame) \<Longrightarrow>
      0 < getFCByPE cond (frame_id frame) \<and> 8 \<le> length (frame_samples frame) \<and>
      distance < unat (batchSize :: uint32)"
    and w: "15 \<le> unat ninput"
    and nowrap: "unat ninput * unat batchSize < 2 ^ 32"
    and len: "length iInput = unat ninput * unat batchSize"
  shows "\<exists>st'. process_digi QIE11DataFrame M cond ninput distance frame (this, iInput) = Inr st'"
proof (cases "admitted (frame_id frame)")
  case False
  then show ?thesis
    by (simp add: process_digi_rejected)
next
  case True
  let ?cell = "frame_id frame"
  let ?cs = "adc2fC cond frame"
  let ?maxTS = "std_min (of_nat (length ?cs)) M"
  let ?ib = "of_nat distance :: uint32"
  have lcs: "length ?cs = length (frame_samples frame)"
    by (simp add: adc2fC_def)
  have m1: "sint ?maxTS \<le> int (length ?cs)"
    by (rule maxTS_le_length)
  then have m2: "sint ?maxTS \<le> int (length (frame_samples frame))"
    by (simp add: lcs)
  from wf [OF True] have pos: "0 < getFCByPE cond ?cell"
    and n8: "8 \<le> length (frame_samples frame)" and d: "distance < unat batchSize"
    by simp_all
  have row: "unat (?ib * ninput + of_nat k) < length iInput" if "k < 15" for k
    using row_index [OF d w nowrap that] len by simp
  have charge_ix: "unat (?ib * ninput + of_nat ts + 2) < length iInput" if "ts < 8" for ts
  proof -
    have a: "unat (?ib * ninput + of_nat (ts + 2)) < length iInput"
      using that by (intro row) simp
    have b: "?ib * ninput + of_nat ts + 2 = ?ib * ninput + of_nat (ts + 2)"
      by simp
    show ?thesis
      unfolding b by (rule a)
  qed
  have depth_ix: "unat (?ib * ninput + of_nat dd + 10) < length iInput" if "dd < 5" for dd
  proof -
    have a: "unat (?ib * ninput + of_nat (dd + 10)) < length iInput"
      using that by (intro row) simp
    have b: "?ib * ninput + of_nat dd + 10 = ?ib * ninput + of_nat (dd + 10)"
      by simp
    show ?thesis
      unfolding b by (rule a)
  qed
  obtain rcfs where rcfs: "RawChargeFromSample_QIE11 (member_sipmQTSShift this)
      (member_sipmQNTStoSum this) cond ?cell ?cs 3 frame ?maxTS = Inr rcfs"
    using ctor_QIE11_ok [OF pos m2 m1] by blast
  have "\<exists>i1. write_charges rcfs (pedestal cond ?cell) (frame_samples frame) ?cs ?ib ninput
      [0..<8] iInput = Inr i1"
    using n8 lcs charge_ix by (intro write_charges_ok) auto
  then obtain i1 where i1: "write_charges rcfs (pedestal cond ?cell) (frame_samples frame) ?cs
      ?ib ninput [0..<8] iInput = Inr i1"
    by blast
  have l1: "length i1 = length iInput"
    using write_charges_Inr [OF i1] by simp
  let ?i2 = "i1[distance := of_int (ieta ?cell)]"
  let ?i3 = "?i2[distance + 1 := of_int (iphi ?cell)]"
  note mi = meta_index [OF d w nowrap]
  have s2: "store i1 (unat (?ib + 0)) (of_int (ieta ?cell)) = Inr ?i2"
    using mi l1 len by (simp add: store_Inr)
  have s3: "store ?i2 (unat (?ib + 1)) (of_int (iphi ?cell)) = Inr ?i3"
    using mi l1 len by (simp add: store_Inr)
  have "\<exists>i4. write_depth (depth this) ?ib ninput [1..<5] ?i3 = Inr i4"
    using depth_ix l1 by (intro write_depth_ok) auto
  then obtain i4 where i4: "write_depth (depth this) ?ib ninput [1..<5] ?i3 = Inr i4"
    by blast
  show ?thesis
    using True rcfs i1 s2 s3 i4 by (simp add: process_digi_def Let_def)
qed

lemma process_digi_Inr:
  assumes "process_digi dframe M cond ninput distance frame st = Inr st'"
  shows "length (snd st') = length (snd st) \<and>
     fst st' = (fst st)\<lparr>tmp := tmp (fst st) @
                 (if admitted (frame_id frame) then [new_HBHERecHit (frame_id frame) 0 0 0] else [])\<rparr>"
proof (cases "admitted (frame_id frame)")
  case False
  then show ?thesis
    using assms by (simp add: process_digi_rejected)
next
  case True
  from assms True obtain rcfs i1 i2 i3 i4 where
    i1: "write_charges rcfs (pedestal cond (frame_id frame)) (frame_samples frame)
           (adc2fC cond frame) (of_nat distance) ninput [0..<8] (snd st) = Inr i1"
    and i2: "store i1 (unat (of_nat distance + 0 :: uint32)) (of_int (ieta (frame_id frame))) = Inr i2"
    and i3: "store i2 (unat (of_nat distance + 1 :: uint32)) (of_int (iphi (frame_id frame))) = Inr i3"
    and i4: "write_depth (depth (fst st)) (of_nat distance) ninput [1..<5] i3 = Inr i4"
    and st': "st' = ((fst st)\<lparr>tmp := tmp (fst st) @ [new_HBHERecHit (frame_id frame) 0 0 0]\<rparr>, i4)"
    by (auto simp: process_digi_def Let_def split: sum.splits)
  have "length i1 = length (snd st)"
    using write_charges_Inr [OF i1] by simp
  moreover have "length i2 = length i1"
    using store_InrD [OF i2] by simp
  moreover have "length i3 = length i2"
    using store_InrD [OF i3] by simp
  moreover have "length i4 = length i3"
    using i4 by (rule write_depth_length)
  ultimately show ?thesis
    using True st' by simp
qed

lemma processData_loop_Inr:
  "processData_loop dframe M cond ninput distance coll st = Inr st' \<Longrightarrow>
   length (snd st') = length (snd st) \<and>
   fst st' = (fst st)\<lparr>tmp := tmp (fst st) @
               map (\<lambda>f. new_HBHERecHit (frame_id f) 0 0 0) (filter (\<lambda>f. admitted (frame_id f)) coll)\<rparr>"
proof (induction coll arbitrary: distance st)
  case Nil
  then show ?case by simp
next
  case (Cons frame rest)
  from Cons.prems obtain mid where
    mid: "process_digi dframe M cond ninput distance frame st = Inr mid"
    and rest: "processData_loop dframe M cond ninput (Suc distance) rest mid = Inr st'"
    by (auto split: sum.splits)
  show ?case
    using process_digi_Inr [OF mid] Cons.IH [OF rest] by simp
qed

lemma processData_loop_ok:
  assumes "\<And>f. f \<in> set coll \<Longrightarrow> admitted (frame_id f) \<Longrightarrow>
      0 < getFCByPE cond (frame_id f) \<and> 8 \<le> length (frame_samples f)"
    and "\<And>i. i < length coll \<Longrightarrow> admitted (frame_id (coll ! i)) \<Longrightarrow>
      distance + i < unat (batchSize :: uint32)"
    and "length (snd st) = unat ninput * unat batchSize"
    and "15 \<le> unat ninput"
    and "unat ninput * unat batchSize < 2 ^ 32"
  shows "\<exists>st'. processData_loop QIE11DataFrame M cond ninput distance coll st = Inr st'"
  using assms
proof (induction coll arbitrary: distance st)
  case Nil
  then show ?case by simp
next
  case (Cons frame rest)
  have here: "admitted (frame_id frame) \<Longrightarrow> distance < unat batchSize"
    using Cons.prems(2) [of 0] by simp
  have "\<exists>mid. process_digi QIE11DataFrame M cond ninput distance frame (fst st, snd st) = Inr mid"
    using Cons.prems(1) [of frame] here Cons.prems(3,4,5)
    by (intro process_digi_ok [where batchSize = batchSize]) simp_all
  then obtain mid where mid: "process_digi QIE11DataFrame M cond ninput distance frame st = Inr mid"
    by auto
  have lmid: "length (snd mid) = unat ninput * unat batchSize"
    using process_digi_Inr [OF mid] Cons.prems(3) by simp
  have later: "Suc distance + i < unat batchSize"
    if "i < length rest" "admitted (frame_id (rest ! i))" for i
    using Cons.prems(2) [of "Suc i"] that by simp
  have "\<exists>st'. processData_loop QIE11DataFrame M cond ninput (Suc distance) rest mid = Inr st'"
    using Cons.prems(1,4,5) lmid later by (intro Cons.IH [where st = mid]) simp_all
  then show ?case
    using mid by simp
qed

lemma processData_loop_append:
  "processData_loop dframe M cond ninput distance (xs @ ys) st =
     (case processData_loop dframe M cond ninput distance xs st of
        Inl e \<Rightarrow> Inl e
      | Inr st' \<Rightarrow> processData_loop dframe M cond ninput (distance + length xs) ys st')"
  by (induction xs arbitrary: distance st) (auto split: sum.splits)

lemma processData_loop_bad:
  "f \<in> set coll \<Longrightarrow> admitted (frame_id f) \<Longrightarrow> getFCByPE cond (frame_id f) \<le> 0 \<Longrightarrow>
   \<exists>e. processData_loop QIE11DataFrame M cond ninput distance coll st = Inl e"
proof (induction coll arbitrary: distance st)
  case Nil
  then show ?case by simp
next
  case (Cons frame rest)
  show ?case
  proof (cases "process_digi QIE11DataFrame M cond ninput distance frame st")
    case (Inl e)
    then show ?thesis by simp
  next
    case (Inr mid)
    then have "f \<noteq> frame"
      using Cons.prems(2,3) by (auto simp: process_digi_bad)
    then have "f \<in> set rest"
      using Cons.prems(1) by simp
    then have "\<exists>e. processData_loop QIE11DataFrame M cond ninput (Suc distance) rest mid = Inl e"
      using Cons.prems(2,3) by (rule Cons.IH)
    then show ?thesis
      using Inr by simp
  qed
qed

lemma produce_loop_map:
  "produce_loop iOutput ib xs out =
     out @ map (\<lambda>it. new_HBHERecHit (rechit_id it) (1 / 2) 0 0) xs"
  by (induction xs arbitrary: ib out) simp_all

lemma produce_map:
  "produce this iOutput = map (\<lambda>it. new_HBHERecHit (rechit_id it) (1 / 2) 0 0) (tmp this)"
  by (simp add: produce_def produce_loop_map)

lemma sample_at_InlD: "sample_at xs i = Inl e \<Longrightarrow> e = BadSampleIndex i"
  by (auto simp: sample_at_def split: if_splits)

lemma sipmQ_loop_InlD:
  "sipmQ_loop ped frame cs lastTS ts acc = Inl e \<Longrightarrow> \<exists>i. e = BadSampleIndex i"
proof (induction ped frame cs lastTS ts acc rule: sipmQ_loop.induct)
  case (1 ped frame cs lastTS ts acc)
  show ?case
  proof (cases "sint ts < sint lastTS")
    case True
    show ?thesis
    proof (cases "sample_at frame (sint ts)")
      case (Inl e')
      then have "e = e'"
        using "1.prems" True by (subst (asm) sipmQ_loop.simps) simp
      then show ?thesis
        using Inl by (auto dest: sample_at_InlD)
    next
      case (Inr s)
      note fr = this
      show ?thesis
      proof (cases "sample_at cs (sint ts)")
        case (Inl e')
        then have "e = e'"
          using "1.prems" True fr by (subst (asm) sipmQ_loop.simps) simp
        then show ?thesis
          using Inl by (auto dest: sample_at_InlD)
      next
        case (Inr q)
        have "sipmQ_loop ped frame cs lastTS (ts + 1) (acc + (q - ped (capid s))) = Inl e"
          using "1.prems" True fr Inr by (subst (asm) sipmQ_loop.simps) simp
        then show ?thesis
          by (rule "1.IH" [OF True fr Inr])
      qed
    qed
  next
    case False
    then show ?thesis
      using "1.prems" by (subst (asm) sipmQ_loop.simps) simp
  qed
qed

lemma ctor_QIE11_good:
  "0 < getFCByPE cond ident \<Longrightarrow>
   RawChargeFromSample_QIE11 shift n cond ident cs soi frame maxTS \<noteq> Inl (HBHEPhase1BadDB x)"
  by (auto simp: RawChargeFromSample_QIE11_def Let_def split: sum.splits dest: sipmQ_loop_InlD)

lemma acquire_bad_at:
  assumes pre: "\<forall>g \<in> set pre. admitted (frame_id g) \<longrightarrow>
      0 < getFCByPE cond (frame_id g) \<and> 8 \<le> length (frame_samples g)"
    and cap: "length pre < unat (client_batchSize this)"
    and width: "15 \<le> unat (client_ninput this)"
    and nowrap: "unat (client_ninput this) * unat (client_batchSize this) < 2 ^ 32"
    and adm: "admitted (frame_id f)"
    and bad: "getFCByPE cond (frame_id f) \<le> 0"
  shows "acquire M this (pre @ f # post) cond = Inl (HBHEPhase1BadDB (frame_id f))"
proof -
  let ?st = "(this\<lparr>tmp := []\<rparr>,
     replicate (unat (client_ninput this * client_batchSize this)) (0::real))"
  have size: "unat (client_ninput this * client_batchSize this) =
      unat (client_ninput this) * unat (client_batchSize this)"
    using nowrap by (simp add: unat_mult_lem [THEN iffD1])
  have "\<exists>st'. processData_loop QIE11DataFrame M cond (client_ninput this) 0 pre ?st = Inr st'"
    using pre cap width nowrap size
    by (intro processData_loop_ok [where batchSize = "client_batchSize this"]) simp_all
  then obtain st' where
    st': "processData_loop QIE11DataFrame M cond (client_ninput this) 0 pre ?st = Inr st'"
    by blast
  have "processData_loop QIE11DataFrame M cond (client_ninput this) 0 (pre @ f # post) ?st =
      Inl (HBHEPhase1BadDB (frame_id f))"
    using st' adm bad by (simp add: processData_loop_append process_digi_bad)
  then show ?thesis
    by (simp add: acquire_def processData_def Let_def)
qed

lemma acquire_bad:
  assumes "f \<in> set digis" and "admitted (frame_id f)" and "getFCByPE cond (frame_id f) \<le> 0"
  shows "\<exists>e. acquire M this digis cond = Inl e"
  using processData_loop_bad [OF assms]
  by (simp add: acquire_def processData_def Let_def)

section \<open>Evaluation on the concrete inputs\<close>

lemmas example_defs =
  example_conditions_def example_samples_def barrel_a_def endcap_b_def forward_c_def
  barrel_bad_def frame_of_def example_producer_def

lemmas model_defs =
  acquire_def processData_def process_digi_def admitted_def adc2fC_def std_min_def std_max_def
  RawChargeFromSample_QIE11_def sipmQ_loop.simps sample_at_def store_def new_HBHERecHit_def
  produce_def cycle_def Let_def upt_rec

section \<open>The claims\<close>

subsection \<open>C1: where the metadata of a channel is written\<close>

text \<open>
  C1 says that for the admitted channel of row \<open>i\<close> the batch builder writes eta and phi
  into fixed offset slots of row \<open>i\<close>, the corrected charges into the charge slots of row
  \<open>i\<close>, and a one-hot encoding of the depth of that channel into the depth block of row
  \<open>i\<close>. The source writes the charges and the depth block at \<^verbatim>\<open>ib*ninput + offset\<close>, but
  eta and phi at \<^verbatim>\<open>ib + 0\<close> and \<^verbatim>\<open>ib + 1\<close>, and it encodes the member \<^verbatim>\<open>depth\<close>, which is
  never assigned, not the depth of the cell. With a row width of 15 and two admitted
  channels (eta 5, phi 7, depth 2; eta 20, phi 33, depth 3), slots 15 and 16 of row 1
  stay 0, eta and phi of the second channel land on slots 1 and 2 of row 0, over the phi
  and the first charge of the first channel, and both depth blocks encode the member's
  value 1.
\<close>

theorem C1_metadata_outside_row:
  "acquire 10 (example_producer 15 2) [frame_of barrel_a, frame_of endcap_b] example_conditions =
     Inr ((example_producer 15 2)\<lparr>tmp := [new_HBHERecHit barrel_a 0 0 0,
                                          new_HBHERecHit endcap_b 0 0 0]\<rparr>,
          [5, 20, 33, 8, 15, 22, 29, 36, 43, 50, 0, 1, 0, 0, 0,
           0, 0, 1, 8, 15, 22, 29, 36, 43, 50, 0, 1, 0, 0, 0])"
  by code_simp

subsection \<open>C2: ledger entries and row indices\<close>

text \<open>
  C2 says that the ledger has one entry per admitted channel and that the rows given to
  successive admitted channels increase with no row reused or skipped, also when the
  filter rejects channels. In the source the row of a channel is its position in the
  collection (the inner \<^verbatim>\<open>ib\<close>), so a rejected channel leaves its row empty: with a
  forward channel followed by an endcap channel, the single ledger entry belongs to the
  charges and the depth block of row 1, and row 0 holds no charge.
\<close>

theorem C2_rejected_channel_leaves_row:
  "acquire 10 (example_producer 15 2) [frame_of forward_c, frame_of endcap_b] example_conditions =
     Inr ((example_producer 15 2)\<lparr>tmp := [new_HBHERecHit endcap_b 0 0 0]\<rparr>,
          [0, 20, 33, 0, 0, 0, 0, 0, 0, 0, 0, 0, 0, 0, 0,
           0, 0, 1, 8, 15, 22, 29, 36, 43, 50, 0, 1, 0, 0, 0])"
  by code_simp

subsection \<open>C3: the capacity of the buffer\<close>

text \<open>
  C3 says that exactly \<open>batchCapacity\<close> admitted channels succeed, that one more triggers an
  explicit CapacityExceeded outcome, and that the builder never writes outside the
  buffer. The source has no capacity check, and its rows follow the positions of the
  collection. With a capacity of 1 and two admitted channels, the first write for the
  second channel goes to index 17 of a vector of length 15. With a capacity of 2 and one
  admitted channel behind two rejected ones, the first write goes to index 32 of a vector
  of length 30. With a row width and a capacity of 65536 the product wraps to 0: the
  vector is empty and the first write goes to index 2. With a row width of 10 the depth
  block of the first row starts at index 11 of a vector of length 10.
\<close>

theorem C3_no_capacity_check:
  "acquire 10 (example_producer 15 1) [frame_of barrel_a, frame_of endcap_b] example_conditions
     = Inl (BufferOverrun 17) \<and>
   acquire 10 (example_producer 15 2) [frame_of forward_c, frame_of forward_c, frame_of endcap_b]
       example_conditions
     = Inl (BufferOverrun 32) \<and>
   acquire 10 (example_producer 65536 65536) [frame_of barrel_a] example_conditions
     = Inl (BufferOverrun 2) \<and>
   acquire 10 (example_producer 10 1) [frame_of barrel_a] example_conditions
     = Inl (BufferOverrun 11)"
  by code_simp

text \<open>
  C3, amended: when every admitted channel is among the first \<open>batchCapacity\<close> channels of
  the collection, the row width is at least 15, \<open>batchCapacity \<times> rowWidth\<close> is below
  \<open>2 ^ 32\<close>, and every admitted frame has at least 8 samples and a positive fC/PE factor,
  the acquisition returns and the buffer keeps its length \<open>batchCapacity \<times> rowWidth\<close>:
  every write was inside it.
\<close>

theorem C3_within_capacity:
  assumes "\<forall>f \<in> set digis. admitted (frame_id f) \<longrightarrow>
      0 < getFCByPE conditions (frame_id f) \<and> 8 \<le> length (frame_samples f)"
    and "\<forall>i < length digis. admitted (frame_id (digis ! i)) \<longrightarrow>
      i < unat (client_batchSize this)"
    and "15 \<le> unat (client_ninput this)"
    and "unat (client_ninput this) * unat (client_batchSize this) < 2 ^ 32"
  shows "\<exists>this' iInput. acquire MAXSAMPLES this digis conditions = Inr (this', iInput) \<and>
     length iInput = unat (client_ninput this) * unat (client_batchSize this)"
proof -
  let ?st = "(this\<lparr>tmp := []\<rparr>,
     replicate (unat (client_ninput this * client_batchSize this)) (0::real))"
  have size: "unat (client_ninput this * client_batchSize this) =
      unat (client_ninput this) * unat (client_batchSize this)"
    using assms(4) by (simp add: unat_mult_lem [THEN iffD1])
  have "\<exists>st'. processData_loop QIE11DataFrame MAXSAMPLES conditions (client_ninput this) 0 digis ?st
      = Inr st'"
    using assms size
    by (intro processData_loop_ok [where batchSize = "client_batchSize this"]) simp_all
  then obtain st' where st': "processData_loop QIE11DataFrame MAXSAMPLES conditions
      (client_ninput this) 0 digis ?st = Inr st'"
    by blast
  have "length (snd st') = unat (client_ninput this) * unat (client_batchSize this)"
    using processData_loop_Inr [OF st'] size by simp
  moreover have "acquire MAXSAMPLES this digis conditions = Inr (fst st', snd st')"
    using st' by (simp add: acquire_def processData_def Let_def)
  ultimately show ?thesis
    by blast
qed

theorem C3_within_capacity_witness:
  "(15 \<le> unat (client_ninput (example_producer 15 2)) \<and>
    unat (client_ninput (example_producer 15 2)) * unat (client_batchSize (example_producer 15 2))
      < 2 ^ 32) \<and>
   (\<exists>this' iInput.
      acquire 10 (example_producer 15 2) [frame_of barrel_a, frame_of endcap_b, frame_of forward_c]
          example_conditions
        = Inr (this', iInput) \<and>
      length iInput =
        unat (client_ninput (example_producer 15 2)) * unat (client_batchSize (example_producer 15 2)))"
proof -
  have h1: "\<forall>f \<in> set [frame_of barrel_a, frame_of endcap_b, frame_of forward_c].
      admitted (frame_id f) \<longrightarrow>
      0 < getFCByPE example_conditions (frame_id f) \<and> 8 \<le> length (frame_samples f)"
    by (simp add: example_defs)
  have h2: "\<forall>i < length [frame_of barrel_a, frame_of endcap_b, frame_of forward_c].
      admitted (frame_id ([frame_of barrel_a, frame_of endcap_b, frame_of forward_c] ! i)) \<longrightarrow>
      i < unat (client_batchSize (example_producer 15 2))"
    by (simp add: example_defs admitted_def nth_Cons' less_Suc_eq numeral_3_eq_3)
  have h3: "15 \<le> unat (client_ninput (example_producer 15 2))"
    by (simp add: example_defs)
  have h4: "unat (client_ninput (example_producer 15 2)) *
      unat (client_batchSize (example_producer 15 2)) < 2 ^ 32"
    by (simp add: example_defs)
  show ?thesis
    using h3 h4 C3_within_capacity [OF h1 h2 h3 h4, of 10] by blast
qed

subsection \<open>C4: result construction\<close>

text \<open>
  C4 says that \<^verbatim>\<open>produce\<close> emits one record per ledger entry, in ledger order, and that
  record \<open>i\<close> carries the identity of ledger entry \<open>i\<close> with scalars taken from row \<open>i\<close> of
  the BatchOutput. The scalars are not taken from the output: on a ledger of one channel
  the outputs \<open>[3]\<close> and \<open>[4]\<close> give the same record, of energy \<open>1 / 2\<close>.
\<close>

theorem C4_scalars_not_from_output:
  "produce ((example_producer 15 1)\<lparr>tmp := [new_HBHERecHit barrel_a 0 0 0]\<rparr>) [3] =
     produce ((example_producer 15 1)\<lparr>tmp := [new_HBHERecHit barrel_a 0 0 0]\<rparr>) [4] \<and>
   map energy (produce ((example_producer 15 1)\<lparr>tmp := [new_HBHERecHit barrel_a 0 0 0]\<rparr>) [3])
     = [1 / 2]"
  by (simp add: produce_def new_HBHERecHit_def example_producer_def)

text \<open>
  C4, amended: \<^verbatim>\<open>produce\<close> emits exactly one record per ledger entry, in ledger order,
  without reordering, deduplication or reindexing; record \<open>i\<close> carries the identity of
  ledger entry \<open>i\<close>, with the energy \<open>1 / 2\<close> and both times \<open>0\<close>.
\<close>

theorem C4_one_record_per_entry:
  "length (produce this iOutput) = length (tmp this) \<and>
   map rechit_id (produce this iOutput) = map rechit_id (tmp this) \<and>
   produce this iOutput = map (\<lambda>it. new_HBHERecHit (rechit_id it) (1 / 2) 0 0) (tmp this)"
  by (simp add: produce_map new_HBHERecHit_def comp_def)

subsection \<open>C5: the placeholder\<close>

text \<open>
  C5: the scalars of every emitted record are a fixed placeholder (energy \<open>1 / 2\<close>, time
  \<open>0\<close>, falling time \<open>0\<close>), the same for all records and inputs, and the BatchOutput is
  discarded: two outputs give the same records.
\<close>

theorem C5_placeholder_scalars:
  "produce this iOutput = produce this iOutput' \<and>
   map (\<lambda>r. (energy r, time r, timeFalling r)) (produce this iOutput) =
     replicate (length (tmp this)) (1 / 2, 0, 0)"
  by (simp add: produce_map new_HBHERecHit_def map_replicate_const comp_def)

subsection \<open>C6: a non-positive fC/PE factor\<close>

text \<open>
  C6: the specialised constructor fails with \<open>HBHEPhase1BadDB\<close> of the channel when its
  fC/PE factor is not positive, and never with that error when the factor is positive. The
  error is not caught: an acquisition whose collection holds an admitted channel with
  such a factor does not return, and the cycle ends with the same error, without a
  record. When the channels before the first such channel fit the buffer (whose size has
  not wrapped), the error is \<open>HBHEPhase1BadDB\<close> of that channel.
\<close>

theorem C6_bad_calibration_aborts:
  "(getFCByPE cond ident \<le> 0 \<longrightarrow>
      RawChargeFromSample_ctor QIE11DataFrame shift n cond ident cs soi frame maxTS
        = Inl (HBHEPhase1BadDB ident)) \<and>
   (0 < getFCByPE cond ident' \<longrightarrow>
      RawChargeFromSample_ctor QIE11DataFrame shift n cond ident' cs soi frame maxTS
        \<noteq> Inl (HBHEPhase1BadDB x)) \<and>
   (f \<in> set digis \<and> admitted (frame_id f) \<and> getFCByPE cond (frame_id f) \<le> 0 \<longrightarrow>
      (\<exists>e. acquire M this digis cond = Inl e \<and> cycle gateway M this digis cond = Inl e)) \<and>
   ((\<forall>g \<in> set pre. admitted (frame_id g) \<longrightarrow>
        0 < getFCByPE cond (frame_id g) \<and> 8 \<le> length (frame_samples g)) \<and>
    length pre < unat (client_batchSize this) \<and> 15 \<le> unat (client_ninput this) \<and>
    unat (client_ninput this) * unat (client_batchSize this) < 2 ^ 32 \<and>
    admitted (frame_id f) \<and> getFCByPE cond (frame_id f) \<le> 0 \<longrightarrow>
      acquire M this (pre @ f # post) cond = Inl (HBHEPhase1BadDB (frame_id f)) \<and>
      cycle gateway M this (pre @ f # post) cond = Inl (HBHEPhase1BadDB (frame_id f)))"
proof (intro conjI impI)
  assume "getFCByPE cond ident \<le> 0"
  then show "RawChargeFromSample_ctor QIE11DataFrame shift n cond ident cs soi frame maxTS
      = Inl (HBHEPhase1BadDB ident)"
    by (simp add: ctor_QIE11_bad)
next
  assume "0 < getFCByPE cond ident'"
  then show "RawChargeFromSample_ctor QIE11DataFrame shift n cond ident' cs soi frame maxTS
      \<noteq> Inl (HBHEPhase1BadDB x)"
    by (simp add: ctor_QIE11_good)
next
  assume "f \<in> set digis \<and> admitted (frame_id f) \<and> getFCByPE cond (frame_id f) \<le> 0"
  then obtain e where "acquire M this digis cond = Inl e"
    using acquire_bad by blast
  then show "\<exists>e. acquire M this digis cond = Inl e \<and> cycle gateway M this digis cond = Inl e"
    by (simp add: cycle_def)
next
  assume a: "(\<forall>g \<in> set pre. admitted (frame_id g) \<longrightarrow>
        0 < getFCByPE cond (frame_id g) \<and> 8 \<le> length (frame_samples g)) \<and>
    length pre < unat (client_batchSize this) \<and> 15 \<le> unat (client_ninput this) \<and>
    unat (client_ninput this) * unat (client_batchSize this) < 2 ^ 32 \<and>
    admitted (frame_id f) \<and> getFCByPE cond (frame_id f) \<le> 0"
  then show "acquire M this (pre @ f # post) cond = Inl (HBHEPhase1BadDB (frame_id f))"
    by (intro acquire_bad_at) simp_all
  then show "cycle gateway M this (pre @ f # post) cond = Inl (HBHEPhase1BadDB (frame_id f))"
    by (simp add: cycle_def)
qed

theorem C6_bad_calibration_aborts_witness:
  "(getFCByPE example_conditions barrel_bad \<le> 0 \<and>
    RawChargeFromSample_ctor QIE11DataFrame 0 3 example_conditions barrel_bad
        (adc2fC example_conditions (frame_of barrel_bad)) 3 (frame_of barrel_bad) 8
      = Inl (HBHEPhase1BadDB barrel_bad)) \<and>
   (0 < getFCByPE example_conditions barrel_a \<and>
    RawChargeFromSample_ctor QIE11DataFrame 0 3 example_conditions barrel_a
        (adc2fC example_conditions (frame_of barrel_bad)) 3 (frame_of barrel_bad) 8
      \<noteq> Inl (HBHEPhase1BadDB barrel_a)) \<and>
   ((frame_of barrel_bad \<in> set [frame_of endcap_b, frame_of barrel_bad] \<and>
     admitted (frame_id (frame_of barrel_bad)) \<and>
     getFCByPE example_conditions (frame_id (frame_of barrel_bad)) \<le> 0) \<and>
    (\<exists>e. acquire 10 (example_producer 15 2) [frame_of endcap_b, frame_of barrel_bad]
            example_conditions = Inl e \<and>
         cycle (\<lambda>iInput. iInput) 10 (example_producer 15 2)
           [frame_of endcap_b, frame_of barrel_bad] example_conditions = Inl e)) \<and>
   ((length [frame_of barrel_a] < unat (client_batchSize (example_producer 15 2)) \<and>
     15 \<le> unat (client_ninput (example_producer 15 2)) \<and>
     unat (client_ninput (example_producer 15 2)) * unat (client_batchSize (example_producer 15 2))
       < 2 ^ 32 \<and>
     admitted (frame_id (frame_of barrel_bad)) \<and>
     getFCByPE example_conditions (frame_id (frame_of barrel_bad)) \<le> 0) \<and>
    acquire 10 (example_producer 15 2) ([frame_of barrel_a] @ frame_of barrel_bad # [frame_of endcap_b])
        example_conditions = Inl (HBHEPhase1BadDB (frame_id (frame_of barrel_bad))) \<and>
    cycle (\<lambda>iInput. iInput) 10 (example_producer 15 2)
        ([frame_of barrel_a] @ frame_of barrel_bad # [frame_of endcap_b]) example_conditions
      = Inl (HBHEPhase1BadDB (frame_id (frame_of barrel_bad))))"
proof -
  have h1: "getFCByPE example_conditions barrel_bad \<le> 0"
    by (simp add: example_defs)
  have h2: "0 < getFCByPE example_conditions barrel_a"
    by (simp add: example_defs)
  have h3: "frame_of barrel_bad \<in> set [frame_of endcap_b, frame_of barrel_bad] \<and>
     admitted (frame_id (frame_of barrel_bad)) \<and>
     getFCByPE example_conditions (frame_id (frame_of barrel_bad)) \<le> 0"
    by (simp add: example_defs admitted_def)
  have h4: "(\<forall>g \<in> set [frame_of barrel_a]. admitted (frame_id g) \<longrightarrow>
        0 < getFCByPE example_conditions (frame_id g) \<and> 8 \<le> length (frame_samples g)) \<and>
     length [frame_of barrel_a] < unat (client_batchSize (example_producer 15 2)) \<and>
     15 \<le> unat (client_ninput (example_producer 15 2)) \<and>
     unat (client_ninput (example_producer 15 2)) * unat (client_batchSize (example_producer 15 2))
       < 2 ^ 32 \<and>
     admitted (frame_id (frame_of barrel_bad)) \<and>
     getFCByPE example_conditions (frame_id (frame_of barrel_bad)) \<le> 0"
    by (simp add: example_defs admitted_def)
  note inst = C6_bad_calibration_aborts [where cond = example_conditions and ident = barrel_bad
      and ident' = barrel_a and x = barrel_a and shift = 0 and n = 3
      and cs = "adc2fC example_conditions (frame_of barrel_bad)" and soi = 3
      and frame = "frame_of barrel_bad" and maxTS = 8 and M = 10
      and this = "example_producer 15 2" and gateway = "\<lambda>iInput. iInput"
      and f = "frame_of barrel_bad" and digis = "[frame_of endcap_b, frame_of barrel_bad]"
      and pre = "[frame_of barrel_a]" and post = "[frame_of endcap_b]"]
  show ?thesis
    using h1 h2 h3 h4 inst by blast
qed

subsection \<open>C7: one correction factor per channel\<close>

text \<open>
  C7: a corrector that the specialised constructor returns holds the factor looked up
  once, at the sum over the integration window of decoded charge minus pedestal, divided
  by the fC/PE factor; \<^verbatim>\<open>getRawCharge\<close> returns
  \<open>(decodedCharge - pedestal) * factor + pedestal\<close> with this stored factor, and so does each
  of the eight values that the loop over \<^verbatim>\<open>inputTS\<close> writes.
\<close>

theorem C7_single_factor:
  assumes "RawChargeFromSample_ctor QIE11DataFrame shift n cond ident cs soi frame maxTS = Inr rcfs"
  shows "member_factor rcfs =
      getRecoCorrectionFactor cond ident
        ((\<Sum>ts = nat (sint (std_max (soi + shift) 0))..<
                 nat (sint (std_min (std_max (soi + shift) 0 + n) maxTS)).
            cs ! ts - pedestal cond ident (capid (frame_samples frame ! ts)))
         / getFCByPE cond ident) \<and>
    getRawCharge rcfs decodedCharge ped = (decodedCharge - ped) * member_factor rcfs + ped \<and>
    (write_charges rcfs calib_pedestal samples cs' ib ninput [0..<8] iInput = Inr iInput' \<longrightarrow>
       (\<forall>inputTS < 8. iInput' ! unat (ib * ninput + of_nat inputTS + 2) =
          (cs' ! inputTS - calib_pedestal (capid (samples ! inputTS))) * member_factor rcfs
            + calib_pedestal (capid (samples ! inputTS))))"
proof -
  let ?sum = "\<Sum>ts = nat (sint (std_max (soi + shift) 0))..<
                 nat (sint (std_min (std_max (soi + shift) 0 + n) maxTS)).
            cs ! ts - pedestal cond ident (capid (frame_samples frame ! ts))"
  have "RawChargeFromSample_QIE11 shift n cond ident cs soi frame maxTS = Inr rcfs"
    using assms by simp
  then have rcfs: "rcfs = SiPM (getFCByPE cond ident) (getRecoCorrectionFactor cond ident)
      (getRecoCorrectionFactor cond ident (?sum / getFCByPE cond ident))"
    by (simp add: ctor_QIE11_InrD)
  have raw: "\<And>x p. getRawCharge rcfs x p = (x - p) * member_factor rcfs + p"
    by (simp add: rcfs)
  have "\<forall>inputTS < 8. iInput' ! unat (ib * ninput + of_nat inputTS + 2) =
          (cs' ! inputTS - calib_pedestal (capid (samples ! inputTS))) * member_factor rcfs
            + calib_pedestal (capid (samples ! inputTS))"
    if w: "write_charges rcfs calib_pedestal samples cs' ib ninput [0..<8] iInput = Inr iInput'"
    using write_charges_Inr [OF w] by (simp add: raw)
  then show ?thesis
    using raw by (simp add: rcfs)
qed

theorem C7_single_factor_witness:
  "RawChargeFromSample_ctor QIE11DataFrame 0 3 example_conditions barrel_a
       (adc2fC example_conditions (frame_of barrel_a)) 3 (frame_of barrel_a) 8
     = Inr (SiPM 2 (\<lambda>x. 1 + x) 7) \<and>
   write_charges (SiPM 2 (\<lambda>x. 1 + x) 7) (\<lambda>c. 1) example_samples [1, 2, 3, 4, 5, 6, 7, 8]
       0 15 [0..<8] [0, 0, 0, 0, 0, 0, 0, 0, 0, 0, 0, 0, 0, 0, 0]
     = Inr [0, 0, 1, 8, 15, 22, 29, 36, 43, 50, 0, 0, 0, 0, 0] \<and>
   member_factor (SiPM 2 (\<lambda>x. 1 + x) 7) =
      getRecoCorrectionFactor example_conditions barrel_a
        ((\<Sum>ts = nat (sint (std_max (3 + 0) 0))..<
                 nat (sint (std_min (std_max (3 + 0) 0 + 3) 8)).
            adc2fC example_conditions (frame_of barrel_a) ! ts
              - pedestal example_conditions barrel_a (capid (frame_samples (frame_of barrel_a) ! ts)))
         / getFCByPE example_conditions barrel_a) \<and>
   getRawCharge (SiPM 2 (\<lambda>x. 1 + x) 7) 5 1 = (5 - 1) * member_factor (SiPM 2 (\<lambda>x. 1 + x) 7) + 1 \<and>
   [0, 0, 1, 8, 15, 22, 29, 36, 43, 50, 0, 0, 0, 0, 0] ! unat (0 * 15 + of_nat 3 + 2 :: uint32) =
      ([1, 2, 3, 4, 5, 6, 7, 8] ! 3 - (\<lambda>c. 1) (capid (example_samples ! 3)))
         * member_factor (SiPM 2 (\<lambda>x. 1 + x) 7)
       + (\<lambda>c. 1) (capid (example_samples ! 3))"
proof -
  have h: "RawChargeFromSample_ctor QIE11DataFrame 0 3 example_conditions barrel_a
       (adc2fC example_conditions (frame_of barrel_a)) 3 (frame_of barrel_a) 8
     = Inr (SiPM 2 (\<lambda>x. 1 + x) 7)"
    by (simp add: model_defs example_defs)
  have w: "write_charges (SiPM 2 (\<lambda>x. 1 + x) 7) (\<lambda>c. 1) example_samples [1, 2, 3, 4, 5, 6, 7, 8]
       0 15 [0..<8] [0, 0, 0, 0, 0, 0, 0, 0, 0, 0, 0, 0, 0, 0, 0]
     = Inr [0, 0, 1, 8, 15, 22, 29, 36, 43, 50, 0, 0, 0, 0, 0]"
    by code_simp
  show ?thesis
    using h w C7_single_factor [OF h, of 5 1 "\<lambda>c. 1" example_samples "[1, 2, 3, 4, 5, 6, 7, 8]" 0 15
        "[0, 0, 0, 0, 0, 0, 0, 0, 0, 0, 0, 0, 0, 0, 0]"
        "[0, 0, 1, 8, 15, 22, 29, 36, 43, 50, 0, 0, 0, 0, 0]"]
    by (elim conjE impE allE [of _ "3::nat"]) (simp_all del: getRawCharge.simps)
qed

subsection \<open>C8: the integration window\<close>

text \<open>
  C8 says that, for every SiPM channel, the window is \<open>firstTS = max (soi + shift) 0\<close> and
  \<open>lastTS = min (firstTS + n) maxTS\<close>, that the sum reads no sample at or beyond \<open>maxTS\<close>,
  and that whenever \<open>firstTS \<ge> maxTS\<close> the window is empty, the sum is 0, the effective
  number of pixels is 0 and the corrector neither divides by zero nor throws. The last part
  fails for a channel whose fC/PE factor is not positive: the test of the factor comes
  first, and with a shift of 100 (\<open>firstTS = 103\<close>, \<open>maxTS = 8\<close>) and a factor 0 the
  constructor throws.
\<close>

theorem C8_throws_on_empty_window:
  "sint (8 :: int32) \<le> sint (std_max (3 + 100) 0 :: int32) \<and>
   getFCByPE example_conditions barrel_bad = 0 \<and>
   RawChargeFromSample_QIE11 100 3 example_conditions barrel_bad
       (adc2fC example_conditions (frame_of barrel_bad)) 3 (frame_of barrel_bad) 8
     = Inl (HBHEPhase1BadDB barrel_bad)"
  by (simp add: std_max_def RawChargeFromSample_QIE11_def example_defs)

text \<open>
  C8, amended: the window starts at \<open>firstTS = max (soi + shift) 0\<close>, which is not
  negative, and ends before \<open>lastTS = min (firstTS + n) maxTS\<close>, which is at most \<open>maxTS\<close>;
  the two sums are those of the machine, on 32 bits. The constructor reads no sample at or
  beyond \<open>maxTS\<close>: cutting the samples and the decoded charges down to their first \<open>maxTS\<close>
  entries changes nothing. With the \<open>maxTS\<close> that \<^verbatim>\<open>processData\<close> computes, and whenever the
  frame and the decoded charges have \<open>maxTS\<close> entries, no read falls outside the samples and
  the constructor does exactly this: it throws for a factor that is not positive, and
  otherwise returns the corrector whose factor is looked up at the sum of decoded charge
  minus pedestal over the time slices from \<open>firstTS\<close> up to, not including, \<open>lastTS\<close>,
  divided by the fC/PE factor. When \<open>maxTS \<le> firstTS\<close> and the fC/PE factor is positive,
  the loop adds nothing, the sum is 0, the factor is looked up at 0 and the constructor
  returns. The divisor of a constructed corrector is positive.
\<close>

theorem C8_window_within_samples:
  "sint (std_max (soi + shift) 0) = max (sint (soi + shift)) 0 \<and>
   sint (std_min (std_max (soi + shift) 0 + n) maxTS) =
     min (sint (std_max (soi + shift) 0 + n)) (sint maxTS) \<and>
   0 \<le> sint (std_max (soi + shift) 0) \<and>
   sint (std_min (std_max (soi + shift) 0 + n) maxTS) \<le> sint maxTS \<and>
   RawChargeFromSample_QIE11 shift n cond ident (take (nat (sint maxTS)) cs) soi
       (frame\<lparr>frame_samples := take (nat (sint maxTS)) (frame_samples frame)\<rparr>) maxTS
     = RawChargeFromSample_QIE11 shift n cond ident cs soi frame maxTS \<and>
   RawChargeFromSample_QIE11 shift n cond (frame_id frame) (adc2fC cond frame) 3 frame
       (std_min (of_nat (length (adc2fC cond frame))) MAXSAMPLES)
     \<noteq> Inl (BadSampleIndex i) \<and>
   RawChargeFromSample_QIE11 shift n cond (frame_id frame) (adc2fC cond frame) soi frame
       (std_min (of_nat (length (adc2fC cond frame))) MAXSAMPLES) =
     (if getFCByPE cond (frame_id frame) \<le> 0 then Inl (HBHEPhase1BadDB (frame_id frame))
      else Inr (SiPM (getFCByPE cond (frame_id frame)) (getRecoCorrectionFactor cond (frame_id frame))
        (getRecoCorrectionFactor cond (frame_id frame)
          ((\<Sum>ts = nat (sint (std_max (soi + shift) 0))..<
                   nat (sint (std_min (std_max (soi + shift) 0 + n)
                      (std_min (of_nat (length (adc2fC cond frame))) MAXSAMPLES))).
              adc2fC cond frame ! ts
                - pedestal cond (frame_id frame) (capid (frame_samples frame ! ts)))
           / getFCByPE cond (frame_id frame))))) \<and>
   (sint maxTS \<le> int (length (frame_samples frame)) \<and> sint maxTS \<le> int (length cs) \<longrightarrow>
      RawChargeFromSample_QIE11 shift n cond ident cs soi frame maxTS =
        (if getFCByPE cond ident \<le> 0 then Inl (HBHEPhase1BadDB ident)
         else Inr (SiPM (getFCByPE cond ident) (getRecoCorrectionFactor cond ident)
           (getRecoCorrectionFactor cond ident
             ((\<Sum>ts = nat (sint (std_max (soi + shift) 0))..<
                      nat (sint (std_min (std_max (soi + shift) 0 + n) maxTS)).
                 cs ! ts - pedestal cond ident (capid (frame_samples frame ! ts)))
              / getFCByPE cond ident))))) \<and>
   (sint maxTS \<le> sint (std_max (soi + shift) 0) \<and> 0 < getFCByPE cond ident \<longrightarrow>
      sipmQ_loop (pedestal cond ident) (frame_samples frame) cs
          (std_min (std_max (soi + shift) 0 + n) maxTS) (std_max (soi + shift) 0) 0 = Inr 0 \<and>
      RawChargeFromSample_QIE11 shift n cond ident cs soi frame maxTS =
        Inr (SiPM (getFCByPE cond ident) (getRecoCorrectionFactor cond ident)
               (getRecoCorrectionFactor cond ident 0))) \<and>
   (RawChargeFromSample_QIE11 shift n cond ident cs soi frame maxTS = Inr rcfs \<longrightarrow>
      0 < member_fcByPE rcfs)"
proof (intro conjI impI)
  let ?first = "std_max (soi + shift) 0"
  let ?last = "std_min (?first + n) maxTS"
  show "sint ?first = max (sint (soi + shift)) 0"
    by (simp add: std_max_def)
  show "sint ?last = min (sint (?first + n)) (sint maxTS)"
    by (simp add: std_min_def)
  show first: "0 \<le> sint ?first"
    by (rule sint_std_max_0)
  show last: "sint ?last \<le> sint maxTS"
    by (rule sint_std_min_le2)
  have "sint ?last \<le> int (nat (sint maxTS))"
    using last by simp
  then have "sipmQ_loop (pedestal cond ident) (take (nat (sint maxTS)) (frame_samples frame))
        (take (nat (sint maxTS)) cs) ?last ?first 0 =
      sipmQ_loop (pedestal cond ident) (frame_samples frame) cs ?last ?first 0"
    by (intro sipmQ_loop_take first)
  then show "RawChargeFromSample_QIE11 shift n cond ident (take (nat (sint maxTS)) cs) soi
       (frame\<lparr>frame_samples := take (nat (sint maxTS)) (frame_samples frame)\<rparr>) maxTS
     = RawChargeFromSample_QIE11 shift n cond ident cs soi frame maxTS"
    by (simp add: RawChargeFromSample_QIE11_def Let_def)
  have m1: "sint (std_min (of_nat (length (adc2fC cond frame))) MAXSAMPLES)
      \<le> int (length (adc2fC cond frame))"
    by (rule maxTS_le_length)
  then have m2: "sint (std_min (of_nat (length (adc2fC cond frame))) MAXSAMPLES)
      \<le> int (length (frame_samples frame))"
    by (simp add: adc2fC_def)
  show "RawChargeFromSample_QIE11 shift n cond (frame_id frame) (adc2fC cond frame) 3 frame
       (std_min (of_nat (length (adc2fC cond frame))) MAXSAMPLES)
     \<noteq> Inl (BadSampleIndex i)"
  proof (cases "0 < getFCByPE cond (frame_id frame)")
    case True
    show ?thesis
      by (simp add: ctor_QIE11_ok [OF True m2 m1])
  next
    case False
    then show ?thesis
      by (simp add: ctor_QIE11_bad)
  qed
  show "RawChargeFromSample_QIE11 shift n cond (frame_id frame) (adc2fC cond frame) soi frame
       (std_min (of_nat (length (adc2fC cond frame))) MAXSAMPLES) =
     (if getFCByPE cond (frame_id frame) \<le> 0 then Inl (HBHEPhase1BadDB (frame_id frame))
      else Inr (SiPM (getFCByPE cond (frame_id frame)) (getRecoCorrectionFactor cond (frame_id frame))
        (getRecoCorrectionFactor cond (frame_id frame)
          ((\<Sum>ts = nat (sint (std_max (soi + shift) 0))..<
                   nat (sint (std_min (std_max (soi + shift) 0 + n)
                      (std_min (of_nat (length (adc2fC cond frame))) MAXSAMPLES))).
              adc2fC cond frame ! ts
                - pedestal cond (frame_id frame) (capid (frame_samples frame ! ts)))
           / getFCByPE cond (frame_id frame)))))"
  proof (cases "0 < getFCByPE cond (frame_id frame)")
    case True
    then show ?thesis
      by (simp add: ctor_QIE11_ok [OF True m2 m1])
  next
    case False
    then show ?thesis
      by (simp add: ctor_QIE11_bad)
  qed
next
  assume len: "sint maxTS \<le> int (length (frame_samples frame)) \<and> sint maxTS \<le> int (length cs)"
  show "RawChargeFromSample_QIE11 shift n cond ident cs soi frame maxTS =
        (if getFCByPE cond ident \<le> 0 then Inl (HBHEPhase1BadDB ident)
         else Inr (SiPM (getFCByPE cond ident) (getRecoCorrectionFactor cond ident)
           (getRecoCorrectionFactor cond ident
             ((\<Sum>ts = nat (sint (std_max (soi + shift) 0))..<
                      nat (sint (std_min (std_max (soi + shift) 0 + n) maxTS)).
                 cs ! ts - pedestal cond ident (capid (frame_samples frame ! ts)))
              / getFCByPE cond ident))))"
  proof (cases "0 < getFCByPE cond ident")
    case True
    then show ?thesis
      using len by (simp add: ctor_QIE11_ok)
  next
    case False
    then show ?thesis
      by (simp add: ctor_QIE11_bad)
  qed
next
  let ?first = "std_max (soi + shift) 0"
  let ?last = "std_min (?first + n) maxTS"
  assume a: "sint maxTS \<le> sint ?first \<and> 0 < getFCByPE cond ident"
  have "sint ?last \<le> sint maxTS"
    by (rule sint_std_min_le2)
  then have "\<not> sint ?first < sint ?last"
    using a by simp
  then show empty: "sipmQ_loop (pedestal cond ident) (frame_samples frame) cs ?last ?first 0 = Inr 0"
    by (subst sipmQ_loop.simps) simp
  show "RawChargeFromSample_QIE11 shift n cond ident cs soi frame maxTS =
        Inr (SiPM (getFCByPE cond ident) (getRecoCorrectionFactor cond ident)
               (getRecoCorrectionFactor cond ident 0))"
    using a empty by (simp add: RawChargeFromSample_QIE11_def Let_def)
next
  assume "RawChargeFromSample_QIE11 shift n cond ident cs soi frame maxTS = Inr rcfs"
  from ctor_QIE11_InrD [OF this] show "0 < member_fcByPE rcfs"
    by simp
qed

theorem C8_window_within_samples_witness:
  "(sint (8 :: int32) \<le> sint (std_max (3 + 100) 0 :: int32) \<and>
    0 < getFCByPE example_conditions barrel_a) \<and>
   sipmQ_loop (pedestal example_conditions barrel_a) (frame_samples (frame_of barrel_a))
       (adc2fC example_conditions (frame_of barrel_a))
       (std_min (std_max (3 + 100) 0 + 3) 8) (std_max (3 + 100) 0) 0 = Inr 0 \<and>
   RawChargeFromSample_QIE11 100 3 example_conditions barrel_a
       (adc2fC example_conditions (frame_of barrel_a)) 3 (frame_of barrel_a) 8 =
     Inr (SiPM (getFCByPE example_conditions barrel_a)
            (getRecoCorrectionFactor example_conditions barrel_a)
            (getRecoCorrectionFactor example_conditions barrel_a 0)) \<and>
   0 < member_fcByPE (SiPM (getFCByPE example_conditions barrel_a)
            (getRecoCorrectionFactor example_conditions barrel_a)
            (getRecoCorrectionFactor example_conditions barrel_a 0)) \<and>
   (sint (8 :: int32) \<le> int (length (frame_samples (frame_of barrel_a))) \<and>
    sint (8 :: int32) \<le> int (length (adc2fC example_conditions (frame_of barrel_a)))) \<and>
   RawChargeFromSample_QIE11 0 3 example_conditions barrel_a
       (adc2fC example_conditions (frame_of barrel_a)) 3 (frame_of barrel_a) 8 =
     (if getFCByPE example_conditions barrel_a \<le> 0 then Inl (HBHEPhase1BadDB barrel_a)
      else Inr (SiPM (getFCByPE example_conditions barrel_a)
        (getRecoCorrectionFactor example_conditions barrel_a)
        (getRecoCorrectionFactor example_conditions barrel_a
          ((\<Sum>ts = nat (sint (std_max (3 + 0) 0 :: int32))..<
                   nat (sint (std_min (std_max (3 + 0) 0 + 3) 8 :: int32)).
              adc2fC example_conditions (frame_of barrel_a) ! ts
                - pedestal example_conditions barrel_a
                    (capid (frame_samples (frame_of barrel_a) ! ts)))
           / getFCByPE example_conditions barrel_a)))) \<and>
   RawChargeFromSample_QIE11 0 3 example_conditions barrel_a
       (adc2fC example_conditions (frame_of barrel_a)) 3 (frame_of barrel_a) 8 =
     Inr (SiPM 2 (\<lambda>x. 1 + x) 7)"
proof -
  have h: "sint (8 :: int32) \<le> sint (std_max (3 + 100) 0 :: int32) \<and>
      0 < getFCByPE example_conditions barrel_a"
    by (simp add: std_max_def example_defs)
  have l: "sint (8 :: int32) \<le> int (length (frame_samples (frame_of barrel_a))) \<and>
      sint (8 :: int32) \<le> int (length (adc2fC example_conditions (frame_of barrel_a)))"
    by (simp add: adc2fC_def example_defs)
  note empty = C8_window_within_samples [where soi = 3 and shift = 100 and n = 3 and maxTS = 8
      and cond = example_conditions and ident = barrel_a
      and cs = "adc2fC example_conditions (frame_of barrel_a)" and frame = "frame_of barrel_a"
      and rcfs = "SiPM (getFCByPE example_conditions barrel_a)
            (getRecoCorrectionFactor example_conditions barrel_a)
            (getRecoCorrectionFactor example_conditions barrel_a 0)"]
  note full = C8_window_within_samples [where soi = 3 and shift = 0 and n = 3 and maxTS = 8
      and cond = example_conditions and ident = barrel_a
      and cs = "adc2fC example_conditions (frame_of barrel_a)" and frame = "frame_of barrel_a"]
  have tie: "RawChargeFromSample_QIE11 0 3 example_conditions barrel_a
       (adc2fC example_conditions (frame_of barrel_a)) 3 (frame_of barrel_a) 8 =
     (if getFCByPE example_conditions barrel_a \<le> 0 then Inl (HBHEPhase1BadDB barrel_a)
      else Inr (SiPM (getFCByPE example_conditions barrel_a)
        (getRecoCorrectionFactor example_conditions barrel_a)
        (getRecoCorrectionFactor example_conditions barrel_a
          ((\<Sum>ts = nat (sint (std_max (3 + 0) 0 :: int32))..<
                   nat (sint (std_min (std_max (3 + 0) 0 + 3) 8 :: int32)).
              adc2fC example_conditions (frame_of barrel_a) ! ts
                - pedestal example_conditions barrel_a
                    (capid (frame_samples (frame_of barrel_a) ! ts)))
           / getFCByPE example_conditions barrel_a))))"
    using l full by blast
  have window: "RawChargeFromSample_QIE11 0 3 example_conditions barrel_a
       (adc2fC example_conditions (frame_of barrel_a)) 3 (frame_of barrel_a) 8 =
     Inr (SiPM 2 (\<lambda>x. 1 + x) 7)"
    by (simp add: model_defs example_defs)
  show ?thesis
    using h l empty tie window by blast
qed

subsection \<open>C9: the primary template\<close>

text \<open>
  C9: for a frame class other than the specialised one, \<^verbatim>\<open>getRawCharge\<close> returns the
  decoded charge for every decoded charge and pedestal, and the constructor returns the
  same object whatever the conditions: it reads no SiPM parameter and raises nothing.
\<close>

theorem C9_legacy_identity:
  "RawChargeFromSample_ctor OtherDataFrame sipmQTSShift sipmQNTStoSum cond ident cs soi frame maxTS
     = Inr Generic \<and>
   getRawCharge Generic x p = x"
  by simp

subsection \<open>C10: the ledger belongs to its cycle\<close>

text \<open>
  C10: \<^verbatim>\<open>acquire\<close> clears \<^verbatim>\<open>tmp\<close> before it processes a channel, so whatever the list
  held before makes no difference; after an acquisition that returns, \<^verbatim>\<open>tmp\<close> holds one
  entry for each admitted channel of this cycle, in order, and the records of \<^verbatim>\<open>produce\<close>
  carry exactly these identities.
\<close>

theorem C10_ledger_of_this_cycle:
  assumes "acquire MAXSAMPLES this digis conditions = Inr (this', iInput)"
  shows "acquire MAXSAMPLES (this\<lparr>tmp := stale\<rparr>) digis conditions =
           acquire MAXSAMPLES (this\<lparr>tmp := []\<rparr>) digis conditions \<and>
         tmp this' = map (\<lambda>f. new_HBHERecHit (frame_id f) 0 0 0)
                       (filter (\<lambda>f. admitted (frame_id f)) digis) \<and>
         map rechit_id (produce this' iOutput) =
           map frame_id (filter (\<lambda>f. admitted (frame_id f)) digis)"
proof -
  have clear: "acquire MAXSAMPLES (this\<lparr>tmp := stale\<rparr>) digis conditions =
      acquire MAXSAMPLES (this\<lparr>tmp := []\<rparr>) digis conditions"
    by (simp add: acquire_def)
  have "processData_loop QIE11DataFrame MAXSAMPLES conditions (client_ninput this) 0 digis
      (this\<lparr>tmp := []\<rparr>, replicate (unat (client_ninput this * client_batchSize this)) 0) =
      Inr (this', iInput)"
    using assms by (simp add: acquire_def processData_def Let_def)
  from processData_loop_Inr [OF this]
  have ledger: "tmp this' = map (\<lambda>f. new_HBHERecHit (frame_id f) 0 0 0)
      (filter (\<lambda>f. admitted (frame_id f)) digis)"
    by simp
  then have "map rechit_id (produce this' iOutput) =
      map frame_id (filter (\<lambda>f. admitted (frame_id f)) digis)"
    by (simp add: produce_map new_HBHERecHit_def comp_def)
  with clear ledger show ?thesis
    by blast
qed

theorem C10_ledger_of_this_cycle_witness:
  "acquire 10 ((example_producer 15 2)\<lparr>tmp := [new_HBHERecHit barrel_a 9 9 9]\<rparr>)
       [frame_of endcap_b, frame_of forward_c] example_conditions =
     Inr ((example_producer 15 2)\<lparr>tmp := [new_HBHERecHit endcap_b 0 0 0]\<rparr>,
          [20, 33, 1, 8, 15, 22, 29, 36, 43, 50, 0, 1, 0, 0, 0,
           0, 0, 0, 0, 0, 0, 0, 0, 0, 0, 0, 0, 0, 0, 0]) \<and>
   tmp ((example_producer 15 2)\<lparr>tmp := [new_HBHERecHit endcap_b 0 0 0]\<rparr>) =
     map (\<lambda>f. new_HBHERecHit (frame_id f) 0 0 0)
       (filter (\<lambda>f. admitted (frame_id f)) [frame_of endcap_b, frame_of forward_c]) \<and>
   map rechit_id (produce ((example_producer 15 2)\<lparr>tmp := [new_HBHERecHit endcap_b 0 0 0]\<rparr>) [])
     = map frame_id (filter (\<lambda>f. admitted (frame_id f)) [frame_of endcap_b, frame_of forward_c])"
proof -
  have h: "acquire 10 ((example_producer 15 2)\<lparr>tmp := [new_HBHERecHit barrel_a 9 9 9]\<rparr>)
       [frame_of endcap_b, frame_of forward_c] example_conditions =
     Inr ((example_producer 15 2)\<lparr>tmp := [new_HBHERecHit endcap_b 0 0 0]\<rparr>,
          [20, 33, 1, 8, 15, 22, 29, 36, 43, 50, 0, 1, 0, 0, 0,
           0, 0, 0, 0, 0, 0, 0, 0, 0, 0, 0, 0, 0, 0, 0])"
    by code_simp
  show ?thesis
    using h C10_ledger_of_this_cycle [OF h, of "[]" "[]"] by blast
qed

end
